theory Spec2Isabelle
  imports Main "HOL-Library.AList" "HOL-Library.Sublist"
begin

section \<open>JavaScript values and objects\<close>

text \<open>
  The route handlers of \<^verbatim>\<open>server/routes.ts\<close> work on untyped request bodies
  (\<^verbatim>\<open>req.body\<close>) that they spread into the stored entities, so an entity is modelled as
  what it is at run time: an object, a finite map from property names to JavaScript values.
  Numbers are carried as integers (identifiers, durations and counters are the only numbers
  the handlers compute with), with \<open>JNaN\<close> for the not-a-number result of \<^verbatim>\<open>parseInt\<close>;
  \<open>JDate\<close> is a \<^verbatim>\<open>Date\<close> object, carried by its time in milliseconds.
\<close>

datatype jsval =
    JUndefined
  | JNull
  | JBool bool
  | JNum int
  | JNaN
  | JStr string
  | JDate int
  | JArr "jsval list"
  | JObj "(string \<times> jsval) list"

type_synonym obj = "string \<rightharpoonup> jsval"

text \<open>Property access \<^verbatim>\<open>o.k\<close>: a missing property reads as \<^verbatim>\<open>undefined\<close>.\<close>

definition prop_of :: "obj \<Rightarrow> string \<Rightarrow> jsval" where
  "prop_of ob k = (case ob k of None \<Rightarrow> JUndefined | Some v \<Rightarrow> v)"

text \<open>Object spread \<^verbatim>\<open>{ ...a, ...b }\<close>: the properties of \<open>b\<close> win.\<close>

definition spread :: "obj \<Rightarrow> obj \<Rightarrow> obj" where
  "spread a b = a ++ b"

text \<open>Truthiness, as \<^verbatim>\<open>if (x)\<close>, \<^verbatim>\<open>!x\<close>, \<^verbatim>\<open>x ? a : b\<close> and \<^verbatim>\<open>x || y\<close> test it.\<close>

fun truthy :: "jsval \<Rightarrow> bool" where
  "truthy JUndefined = False"
| "truthy JNull = False"
| "truthy (JBool b) = b"
| "truthy (JNum n) = (n \<noteq> 0)"
| "truthy JNaN = False"
| "truthy (JStr s) = (s \<noteq> [])"
| "truthy (JDate t) = True"
| "truthy (JArr xs) = True"
| "truthy (JObj kvs) = True"

text \<open>
  Strict equality \<^verbatim>\<open>a === b\<close>. Primitives compare by value and \<^verbatim>\<open>NaN\<close> equals nothing.
  Objects, arrays and dates compare by reference; the two sides of every comparison in the
  handlers come from different places (a stored entity and the session), so they are never
  the same reference.
\<close>

fun strict_eq :: "jsval \<Rightarrow> jsval \<Rightarrow> bool" where
  "strict_eq JUndefined b = (b = JUndefined)"
| "strict_eq JNull b = (b = JNull)"
| "strict_eq (JBool x) b = (b = JBool x)"
| "strict_eq (JNum n) b = (b = JNum n)"
| "strict_eq JNaN b = False"
| "strict_eq (JStr s) b = (b = JStr s)"
| "strict_eq (JDate t) b = False"
| "strict_eq (JArr xs) b = False"
| "strict_eq (JObj kvs) b = False"

text \<open>\<^verbatim>\<open>a || b\<close>\<close>

definition js_or :: "jsval \<Rightarrow> jsval \<Rightarrow> jsval" where
  "js_or a b = (if truthy a then a else b)"

datatype error =
    Error string
  | NotFound string jsval
  | TypeError
  | SyntaxError
  | ENOENT
  | MulterError string

section \<open>The JavaScript \<^verbatim>\<open>Map\<close>\<close>

text \<open>
  A \<^verbatim>\<open>Map\<close> keeps its entries in insertion order; \<^verbatim>\<open>set\<close> on a present key
  replaces the value in place, on a new key appends. Keys are compared by value.
\<close>

type_synonym 'v jsmap = "(jsval \<times> 'v) list"

definition Map_get :: "'v jsmap \<Rightarrow> jsval \<Rightarrow> 'v option" where
  "Map_get m k = map_of m k"

definition Map_set :: "'v jsmap \<Rightarrow> jsval \<Rightarrow> 'v \<Rightarrow> 'v jsmap" where
  "Map_set m k v = AList.update k v m"

definition Map_delete :: "'v jsmap \<Rightarrow> jsval \<Rightarrow> 'v jsmap" where
  "Map_delete m k = AList.delete k m"

definition Map_values :: "'v jsmap \<Rightarrow> 'v list" where
  "Map_values m = map snd m"

section \<open>Library functions\<close>

text \<open>
  What the handlers call but \<^verbatim>\<open>routes.ts\<close> does not define is a parameter of the model:
  \<^verbatim>\<open>String.prototype.toLowerCase\<close>, \<^verbatim>\<open>bcrypt.hash(_, 10)\<close>, \<^verbatim>\<open>bcrypt.compare\<close>,
  \<^verbatim>\<open>parseInt\<close>, \<^verbatim>\<open>JSON.parse\<close> and the e-mail test of \<^verbatim>\<open>z.string().email()\<close>.
  Every theorem holds for any choice of them.
\<close>

record lib =
  toLowerCase :: "string \<Rightarrow> string"
  bcrypt_hash :: "string \<Rightarrow> string"
  bcrypt_compare :: "string \<Rightarrow> string \<Rightarrow> bool"
  parseInt :: "jsval \<Rightarrow> jsval"
  JSON_parse :: "jsval \<Rightarrow> error + jsval"
  is_email :: "string \<Rightarrow> bool"

section \<open>Storage layer: \<^verbatim>\<open>MemStorage\<close>\<close>

record storage =
  users :: "obj jsmap"
  companyProfiles :: "obj jsmap"
  creatorProfiles :: "obj jsmap"
  campaigns :: "obj jsmap"
  ads :: "obj jsmap"
  videos :: "obj jsmap"
  videoAds :: "obj jsmap"
  userId :: int
  companyProfileId :: int
  creatorProfileId :: int
  campaignId :: int
  adId :: int
  videoId :: int
  videoAdId :: int

text \<open>The constructor: empty maps, every counter at 1.\<close>

definition MemStorage :: storage where
  "MemStorage = \<lparr> users = [], companyProfiles = [], creatorProfiles = [], campaigns = [],
     ads = [], videos = [], videoAds = [],
     userId = 1, companyProfileId = 1, creatorProfileId = 1, campaignId = 1,
     adId = 1, videoId = 1, videoAdId = 1 \<rparr>"

subsection \<open>Users and profiles\<close>

text \<open>
  \<^verbatim>\<open>x.toLowerCase()\<close> throws a \<^verbatim>\<open>TypeError\<close> unless \<open>x\<close> is a string.
  \<^verbatim>\<open>Array.prototype.find\<close> calls the predicate on the elements in order and stops at the
  first one it accepts; an exception of the predicate ends the search.
\<close>

definition toLowerCase_call :: "lib \<Rightarrow> jsval \<Rightarrow> error + string" where
  "toLowerCase_call L x = (case x of JStr s \<Rightarrow> Inr (toLowerCase L s) | _ \<Rightarrow> Inl TypeError)"

definition same_lower :: "lib \<Rightarrow> jsval \<Rightarrow> jsval \<Rightarrow> error + bool" where
  "same_lower L x y =
     (case toLowerCase_call L x of
        Inl err \<Rightarrow> Inl err
      | Inr a \<Rightarrow>
          (case toLowerCase_call L y of
             Inl err \<Rightarrow> Inl err
           | Inr b \<Rightarrow> Inr (a = b)))"

fun Array_find :: "('a \<Rightarrow> error + bool) \<Rightarrow> 'a list \<Rightarrow> error + 'a option" where
  "Array_find p [] = Inr None"
| "Array_find p (x # xs) =
     (case p x of
        Inl err \<Rightarrow> Inl err
      | Inr found \<Rightarrow> if found then Inr (Some x) else Array_find p xs)"

definition getUser :: "storage \<Rightarrow> jsval \<Rightarrow> obj option" where
  "getUser st i = Map_get (users st) i"

definition getUserByUsername :: "lib \<Rightarrow> storage \<Rightarrow> jsval \<Rightarrow> error + obj option" where
  "getUserByUsername L st username =
     Array_find (\<lambda>user. same_lower L (prop_of user ''username'') username)
       (Map_values (users st))"

definition getUserByEmail :: "lib \<Rightarrow> storage \<Rightarrow> jsval \<Rightarrow> error + obj option" where
  "getUserByEmail L st email =
     Array_find (\<lambda>user. same_lower L (prop_of user ''email'') email)
       (Map_values (users st))"

definition createUser :: "int \<Rightarrow> storage \<Rightarrow> obj \<Rightarrow> obj \<times> storage" where
  "createUser now st user =
     (let i = userId st;
          newUser = spread user [''id'' \<mapsto> JNum i, ''createdAt'' \<mapsto> JDate now]
      in (newUser, st\<lparr> userId := i + 1, users := Map_set (users st) (JNum i) newUser \<rparr>))"

definition createCompanyProfile :: "storage \<Rightarrow> obj \<Rightarrow> obj \<times> storage" where
  "createCompanyProfile st profile =
     (let i = companyProfileId st;
          newProfile = spread profile [''id'' \<mapsto> JNum i]
      in (newProfile,
          st\<lparr> companyProfileId := i + 1,
              companyProfiles := Map_set (companyProfiles st) (JNum i) newProfile \<rparr>))"

definition createCreatorProfile :: "storage \<Rightarrow> obj \<Rightarrow> obj \<times> storage" where
  "createCreatorProfile st profile =
     (let i = creatorProfileId st;
          newProfile = spread profile [''id'' \<mapsto> JNum i]
      in (newProfile,
          st\<lparr> creatorProfileId := i + 1,
              creatorProfiles := Map_set (creatorProfiles st) (JNum i) newProfile \<rparr>))"

subsection \<open>Campaigns\<close>

definition getCampaign :: "storage \<Rightarrow> jsval \<Rightarrow> obj option" where
  "getCampaign st i = Map_get (campaigns st) i"

definition createCampaign :: "int \<Rightarrow> storage \<Rightarrow> obj \<Rightarrow> obj \<times> storage" where
  "createCampaign now st campaign =
     (let i = campaignId st;
          newCampaign = spread campaign [''id'' \<mapsto> JNum i, ''createdAt'' \<mapsto> JDate now]
      in (newCampaign,
          st\<lparr> campaignId := i + 1,
              campaigns := Map_set (campaigns st) (JNum i) newCampaign \<rparr>))"

definition updateCampaign :: "storage \<Rightarrow> jsval \<Rightarrow> obj \<Rightarrow> error + (obj \<times> storage)" where
  "updateCampaign st i campaignData =
     (case getCampaign st i of
        None \<Rightarrow> Inl (NotFound ''Campaign'' i)
      | Some campaign \<Rightarrow>
          (let updatedCampaign = spread campaign campaignData
           in Inr (updatedCampaign,
                   st\<lparr> campaigns := Map_set (campaigns st) i updatedCampaign \<rparr>)))"

definition deleteCampaign :: "storage \<Rightarrow> jsval \<Rightarrow> error + storage" where
  "deleteCampaign st i =
     (case getCampaign st i of
        None \<Rightarrow> Inl (NotFound ''Campaign'' i)
      | Some campaign \<Rightarrow> Inr (st\<lparr> campaigns := Map_delete (campaigns st) i \<rparr>))"

subsection \<open>Ads\<close>

definition getAd :: "storage \<Rightarrow> jsval \<Rightarrow> obj option" where
  "getAd st i = Map_get (ads st) i"

definition createAd :: "int \<Rightarrow> storage \<Rightarrow> obj \<Rightarrow> obj \<times> storage" where
  "createAd now st ad =
     (let i = adId st;
          newAd = spread ad [''id'' \<mapsto> JNum i, ''createdAt'' \<mapsto> JDate now]
      in (newAd, st\<lparr> adId := i + 1, ads := Map_set (ads st) (JNum i) newAd \<rparr>))"

definition updateAd :: "storage \<Rightarrow> jsval \<Rightarrow> obj \<Rightarrow> error + (obj \<times> storage)" where
  "updateAd st i adData =
     (case getAd st i of
        None \<Rightarrow> Inl (NotFound ''Ad'' i)
      | Some ad \<Rightarrow>
          (let updatedAd = spread ad adData
           in Inr (updatedAd, st\<lparr> ads := Map_set (ads st) i updatedAd \<rparr>)))"

definition deleteAd :: "storage \<Rightarrow> jsval \<Rightarrow> error + storage" where
  "deleteAd st i =
     (case getAd st i of
        None \<Rightarrow> Inl (NotFound ''Ad'' i)
      | Some ad \<Rightarrow> Inr (st\<lparr> ads := Map_delete (ads st) i \<rparr>))"

subsection \<open>Videos\<close>

definition getVideo :: "storage \<Rightarrow> jsval \<Rightarrow> obj option" where
  "getVideo st i = Map_get (videos st) i"

definition createVideo :: "int \<Rightarrow> storage \<Rightarrow> obj \<Rightarrow> obj \<times> storage" where
  "createVideo now st video =
     (let i = videoId st;
          newVideo = spread video
            [''id'' \<mapsto> JNum i, ''createdAt'' \<mapsto> JDate now, ''views'' \<mapsto> JNum 0,
             ''thumbnailPath'' \<mapsto> JUndefined, ''processedFilePath'' \<mapsto> JUndefined,
             ''duration'' \<mapsto> JUndefined]
      in (newVideo, st\<lparr> videoId := i + 1, videos := Map_set (videos st) (JNum i) newVideo \<rparr>))"

definition updateVideo :: "storage \<Rightarrow> jsval \<Rightarrow> obj \<Rightarrow> error + (obj \<times> storage)" where
  "updateVideo st i videoData =
     (case getVideo st i of
        None \<Rightarrow> Inl (NotFound ''Video'' i)
      | Some video \<Rightarrow>
          (let updatedVideo = spread video videoData
           in Inr (updatedVideo, st\<lparr> videos := Map_set (videos st) i updatedVideo \<rparr>)))"

definition deleteVideo :: "storage \<Rightarrow> jsval \<Rightarrow> error + storage" where
  "deleteVideo st i =
     (case getVideo st i of
        None \<Rightarrow> Inl (NotFound ''Video'' i)
      | Some video \<Rightarrow> Inr (st\<lparr> videos := Map_delete (videos st) i \<rparr>))"

section \<open>The HTTP boundary\<close>

text \<open>\<^verbatim>\<open>req.session\<close> holds \<^verbatim>\<open>userId\<close> and \<^verbatim>\<open>userType\<close>, both undefined before login.\<close>

record session_data =
  sess_userId :: jsval
  sess_userType :: jsval

text \<open>\<^verbatim>\<open>req.file\<close>, as the upload middleware leaves it.\<close>

record multer_file =
  fieldname :: string
  originalname :: string
  mimetype :: string
  size_bytes :: nat
  path :: string

record request =
  session :: "session_data option"
  params_id :: string
  body :: obj
  req_file :: "multer_file option"

text \<open>\<^verbatim>\<open>res.status(c).json(j)\<close>\<close>

record response =
  status :: nat
  json :: obj

definition message :: "string \<Rightarrow> obj" where
  "message m = [''message'' \<mapsto> JStr m]"

definition respond :: "nat \<Rightarrow> obj \<Rightarrow> response" where
  "respond c j = \<lparr> status = c, json = j \<rparr>"

section \<open>The file system\<close>

text \<open>
  The disk is the set of paths that exist, with a log of the \<^verbatim>\<open>fs.unlink\<close> calls made.
  \<^verbatim>\<open>fs.unlink(p)\<close> is rejected when \<open>p\<close> is not a path or names no file; both handlers
  that call it attach \<^verbatim>\<open>.catch(err => console.error(...))\<close>, which drops the rejection.
\<close>

record disk =
  files :: "string set"
  unlink_calls :: "jsval list"

definition fs_unlink :: "jsval \<Rightarrow> disk \<Rightarrow> (error + unit) \<times> disk" where
  "fs_unlink p d =
     (let d' = d\<lparr> unlink_calls := unlink_calls d @ [p] \<rparr>
      in case p of
           JStr s \<Rightarrow> if s \<in> files d then (Inr (), d'\<lparr> files := files d - {s} \<rparr>)
                     else (Inl ENOENT, d')
         | _ \<Rightarrow> (Inl TypeError, d'))"

definition unlink_catch :: "jsval \<Rightarrow> disk \<Rightarrow> disk" where
  "unlink_catch p d = (case fs_unlink p d of (Inl err, d') \<Rightarrow> d' | (Inr u, d') \<Rightarrow> d')"

section \<open>Campaign routes\<close>

definition get_campaign :: "lib \<Rightarrow> storage \<Rightarrow> request \<Rightarrow> response \<times> storage" where
  "get_campaign L st req =
     (case session req of
        None \<Rightarrow> (respond 401 (message ''Not authenticated''), st)
      | Some s \<Rightarrow>
          if \<not> truthy (sess_userId s) then (respond 401 (message ''Not authenticated''), st)
          else
            (let campaignId = parseInt L (JStr (params_id req))
             in case getCampaign st campaignId of
                  None \<Rightarrow> (respond 404 (message ''Campaign not found''), st)
                | Some campaign \<Rightarrow>
                    if \<not> strict_eq (prop_of campaign ''userId'') (sess_userId s)
                    then (respond 403 (message ''Not authorized to access this campaign''), st)
                    else (respond 200 campaign, st)))"

definition patch_campaign :: "lib \<Rightarrow> storage \<Rightarrow> request \<Rightarrow> response \<times> storage" where
  "patch_campaign L st req =
     (case session req of
        None \<Rightarrow> (respond 401 (message ''Not authenticated''), st)
      | Some s \<Rightarrow>
          if \<not> truthy (sess_userId s) then (respond 401 (message ''Not authenticated''), st)
          else
            (let campaignId = parseInt L (JStr (params_id req))
             in case getCampaign st campaignId of
                  None \<Rightarrow> (respond 404 (message ''Campaign not found''), st)
                | Some campaign \<Rightarrow>
                    if \<not> strict_eq (prop_of campaign ''userId'') (sess_userId s)
                    then (respond 403 (message ''Not authorized to update this campaign''), st)
                    else
                      (case updateCampaign st campaignId (body req) of
                         Inl err \<Rightarrow> (respond 500 (message ''Failed to update campaign''), st)
                       | Inr (updatedCampaign, st') \<Rightarrow> (respond 200 updatedCampaign, st'))))"

definition delete_campaign :: "lib \<Rightarrow> storage \<Rightarrow> request \<Rightarrow> response \<times> storage" where
  "delete_campaign L st req =
     (case session req of
        None \<Rightarrow> (respond 401 (message ''Not authenticated''), st)
      | Some s \<Rightarrow>
          if \<not> truthy (sess_userId s) then (respond 401 (message ''Not authenticated''), st)
          else
            (let campaignId = parseInt L (JStr (params_id req))
             in case getCampaign st campaignId of
                  None \<Rightarrow> (respond 404 (message ''Campaign not found''), st)
                | Some campaign \<Rightarrow>
                    if \<not> strict_eq (prop_of campaign ''userId'') (sess_userId s)
                    then (respond 403 (message ''Not authorized to delete this campaign''), st)
                    else
                      (case deleteCampaign st campaignId of
                         Inl err \<Rightarrow> (respond 500 (message ''Failed to delete campaign''), st)
                       | Inr st' \<Rightarrow> (respond 200 (message ''Campaign deleted successfully''), st'))))"

section \<open>Ad routes\<close>

definition get_ad :: "lib \<Rightarrow> storage \<Rightarrow> request \<Rightarrow> response \<times> storage" where
  "get_ad L st req =
     (case session req of
        None \<Rightarrow> (respond 401 (message ''Not authenticated''), st)
      | Some s \<Rightarrow>
          if \<not> truthy (sess_userId s) then (respond 401 (message ''Not authenticated''), st)
          else
            (let adId = parseInt L (JStr (params_id req))
             in case getAd st adId of
                  None \<Rightarrow> (respond 404 (message ''Ad not found''), st)
                | Some ad \<Rightarrow>
                    if \<not> strict_eq (prop_of ad ''userId'') (sess_userId s)
                    then (respond 403 (message ''Not authorized to access this ad''), st)
                    else (respond 200 ad, st)))"

definition patch_ad :: "lib \<Rightarrow> storage \<Rightarrow> request \<Rightarrow> response \<times> storage" where
  "patch_ad L st req =
     (case session req of
        None \<Rightarrow> (respond 401 (message ''Not authenticated''), st)
      | Some s \<Rightarrow>
          if \<not> truthy (sess_userId s) then (respond 401 (message ''Not authenticated''), st)
          else
            (let adId = parseInt L (JStr (params_id req))
             in case getAd st adId of
                  None \<Rightarrow> (respond 404 (message ''Ad not found''), st)
                | Some ad \<Rightarrow>
                    if \<not> strict_eq (prop_of ad ''userId'') (sess_userId s)
                    then (respond 403 (message ''Not authorized to update this ad''), st)
                    else
                      (case updateAd st adId (body req) of
                         Inl err \<Rightarrow> (respond 500 (message ''Failed to update ad''), st)
                       | Inr (updatedAd, st') \<Rightarrow> (respond 200 updatedAd, st'))))"

text \<open>
  The unlink is awaited before the record is deleted; its failure is dropped by the
  \<^verbatim>\<open>.catch\<close>, so the handler goes on to \<^verbatim>\<open>storage.deleteAd\<close> either way.
\<close>

definition delete_ad ::
  "lib \<Rightarrow> storage \<Rightarrow> disk \<Rightarrow> request \<Rightarrow> response \<times> storage \<times> disk" where
  "delete_ad L st d req =
     (case session req of
        None \<Rightarrow> (respond 401 (message ''Not authenticated''), st, d)
      | Some s \<Rightarrow>
          if \<not> truthy (sess_userId s) then (respond 401 (message ''Not authenticated''), st, d)
          else
            (let adId = parseInt L (JStr (params_id req))
             in case getAd st adId of
                  None \<Rightarrow> (respond 404 (message ''Ad not found''), st, d)
                | Some ad \<Rightarrow>
                    if \<not> strict_eq (prop_of ad ''userId'') (sess_userId s)
                    then (respond 403 (message ''Not authorized to delete this ad''), st, d)
                    else
                      (let d1 = (if truthy (prop_of ad ''filePath'')
                                 then unlink_catch (prop_of ad ''filePath'') d else d)
                       in case deleteAd st adId of
                            Inl err \<Rightarrow> (respond 500 (message ''Failed to delete ad''), st, d1)
                          | Inr st' \<Rightarrow>
                              (respond 200 (message ''Ad deleted successfully''), st', d1))))"

section \<open>Video routes\<close>

definition get_video :: "lib \<Rightarrow> storage \<Rightarrow> request \<Rightarrow> response \<times> storage" where
  "get_video L st req =
     (case session req of
        None \<Rightarrow> (respond 401 (message ''Not authenticated''), st)
      | Some s \<Rightarrow>
          if \<not> truthy (sess_userId s) then (respond 401 (message ''Not authenticated''), st)
          else
            (let videoId = parseInt L (JStr (params_id req))
             in case getVideo st videoId of
                  None \<Rightarrow> (respond 404 (message ''Video not found''), st)
                | Some video \<Rightarrow>
                    if \<not> strict_eq (prop_of video ''userId'') (sess_userId s)
                    then (respond 403 (message ''Not authorized to access this video''), st)
                    else (respond 200 video, st)))"

definition get_video_download :: "lib \<Rightarrow> storage \<Rightarrow> request \<Rightarrow> response \<times> storage" where
  "get_video_download L st req =
     (case session req of
        None \<Rightarrow> (respond 401 (message ''Not authenticated''), st)
      | Some s \<Rightarrow>
          if \<not> truthy (sess_userId s) then (respond 401 (message ''Not authenticated''), st)
          else
            (let videoId = parseInt L (JStr (params_id req))
             in case getVideo st videoId of
                  None \<Rightarrow> (respond 404 (message ''Video not found''), st)
                | Some video \<Rightarrow>
                    if \<not> strict_eq (prop_of video ''userId'') (sess_userId s)
                    then (respond 403 (message ''Not authorized to download this video''), st)
                    else if \<not> strict_eq (prop_of video ''status'') (JStr ''ready'')
                          \<and> \<not> strict_eq (prop_of video ''status'') (JStr ''published'')
                    then (respond 400 (message ''Video is not ready for download''), st)
                    else
                      (respond 200
                         [''message'' \<mapsto> JStr ''Download started'',
                          ''url'' \<mapsto> js_or (prop_of video ''processedFilePath'')
                                          (prop_of video ''rawFilePath'')],
                       st)))"

definition patch_video :: "lib \<Rightarrow> storage \<Rightarrow> request \<Rightarrow> response \<times> storage" where
  "patch_video L st req =
     (case session req of
        None \<Rightarrow> (respond 401 (message ''Not authenticated''), st)
      | Some s \<Rightarrow>
          if \<not> truthy (sess_userId s) then (respond 401 (message ''Not authenticated''), st)
          else
            (let videoId = parseInt L (JStr (params_id req))
             in case getVideo st videoId of
                  None \<Rightarrow> (respond 404 (message ''Video not found''), st)
                | Some video \<Rightarrow>
                    if \<not> strict_eq (prop_of video ''userId'') (sess_userId s)
                    then (respond 403 (message ''Not authorized to update this video''), st)
                    else
                      (case updateVideo st videoId (body req) of
                         Inl err \<Rightarrow> (respond 500 (message ''Failed to update video''), st)
                       | Inr (updatedVideo, st') \<Rightarrow> (respond 200 updatedVideo, st'))))"

definition delete_video ::
  "lib \<Rightarrow> storage \<Rightarrow> disk \<Rightarrow> request \<Rightarrow> response \<times> storage \<times> disk" where
  "delete_video L st d req =
     (case session req of
        None \<Rightarrow> (respond 401 (message ''Not authenticated''), st, d)
      | Some s \<Rightarrow>
          if \<not> truthy (sess_userId s) then (respond 401 (message ''Not authenticated''), st, d)
          else
            (let videoId = parseInt L (JStr (params_id req))
             in case getVideo st videoId of
                  None \<Rightarrow> (respond 404 (message ''Video not found''), st, d)
                | Some video \<Rightarrow>
                    if \<not> strict_eq (prop_of video ''userId'') (sess_userId s)
                    then (respond 403 (message ''Not authorized to delete this video''), st, d)
                    else
                      (let d1 = (if truthy (prop_of video ''rawFilePath'')
                                 then unlink_catch (prop_of video ''rawFilePath'') d else d);
                           d2 = (if truthy (prop_of video ''processedFilePath'')
                                 then unlink_catch (prop_of video ''processedFilePath'') d1 else d1);
                           d3 = (if truthy (prop_of video ''thumbnailPath'')
                                 then unlink_catch (prop_of video ''thumbnailPath'') d2 else d2)
                       in case deleteVideo st videoId of
                            Inl err \<Rightarrow> (respond 500 (message ''Failed to delete video''), st, d3)
                          | Inr st' \<Rightarrow>
                              (respond 200 (message ''Video deleted successfully''), st', d3))))"

section \<open>Uploads\<close>

text \<open>
  One \<^verbatim>\<open>multer\<close> instance, \<^verbatim>\<open>upload\<close>, serves both upload routes. Its configuration is
  the size limit and the file filter below. \<^verbatim>\<open>upload.single(name)\<close> passes an error to
  \<^verbatim>\<open>next\<close> (the route handler is then not called) when the file part has another field
  name, when the filter refuses it, or when it is longer than the limit; without a file
  part it calls the handler with \<^verbatim>\<open>req.file\<close> undefined. The request's \<open>req_file\<close> is the
  incoming file part, \<open>path\<close> being where the disk storage engine puts it.
\<close>

definition fileSize :: nat where
  "fileSize = 2 * 1024 * 1024 * 1024"

definition fileFilter :: "multer_file \<Rightarrow> error + bool" where
  "fileFilter f =
     (if prefix ''video/'' (mimetype f) then Inr True
      else Inl (Error ''Only video files are allowed''))"

definition upload_single :: "string \<Rightarrow> multer_file option \<Rightarrow> error + multer_file option" where
  "upload_single name part =
     (case part of
        None \<Rightarrow> Inr None
      | Some f \<Rightarrow>
          if fieldname f \<noteq> name then Inl (MulterError ''LIMIT_UNEXPECTED_FILE'')
          else
            (case fileFilter f of
               Inl err \<Rightarrow> Inl err
             | Inr accept \<Rightarrow>
                 if \<not> accept then Inr None
                 else if size_bytes f > fileSize then Inl (MulterError ''LIMIT_FILE_SIZE'')
                 else Inr (Some f)))"

text \<open>The outcome of a route with middleware: a response, or an error handed to \<^verbatim>\<open>next\<close>.\<close>

datatype outcome = Responded response | Next error

definition upload_ad_handler ::
  "lib \<Rightarrow> int \<Rightarrow> storage \<Rightarrow> request \<Rightarrow> response \<times> storage" where
  "upload_ad_handler L now st req =
     (case session req of
        None \<Rightarrow> (respond 401 (message ''Not authenticated''), st)
      | Some s \<Rightarrow>
          if \<not> truthy (sess_userId s) then (respond 401 (message ''Not authenticated''), st)
          else
            (case req_file req of
               None \<Rightarrow> (respond 400 (message ''No file uploaded''), st)
             | Some f \<Rightarrow>
                 (let title = prop_of (body req) ''title'';
                      description = prop_of (body req) ''description'';
                      campaignId = prop_of (body req) ''campaignId'';
                      (ad, st') = createAd now st
                        [''userId'' \<mapsto> sess_userId s,
                         ''campaignId'' \<mapsto>
                            (if truthy campaignId then parseInt L campaignId else JUndefined),
                         ''title'' \<mapsto> title,
                         ''description'' \<mapsto> description,
                         ''filePath'' \<mapsto> JStr (path f),
                         ''duration'' \<mapsto> JNum 30,
                         ''status'' \<mapsto> JStr ''pending'']
                  in (respond 201 ad, st'))))"

definition post_ads_upload ::
  "lib \<Rightarrow> int \<Rightarrow> storage \<Rightarrow> request \<Rightarrow> outcome \<times> storage" where
  "post_ads_upload L now st req =
     (case upload_single ''file'' (req_file req) of
        Inl err \<Rightarrow> (Next err, st)
      | Inr f \<Rightarrow>
          (let (r, st') = upload_ad_handler L now st (req\<lparr> req_file := f \<rparr>)
           in (Responded r, st')))"

text \<open>
  The video upload handler ends by \<^verbatim>\<open>setTimeout(callback, 10000)\<close>. The scheduled call is
  returned as a \<open>timer\<close>: its delay and what the callback's closure holds
  (\<^verbatim>\<open>video.id\<close> and \<^verbatim>\<open>req.file.path\<close>). \<open>processing_callback\<close> is the callback, run on
  whatever the storage is when the timer fires; \<open>random_600\<close> is the value of
  \<^verbatim>\<open>Math.floor(Math.random() * 600)\<close>.
\<close>

record timer =
  delay_ms :: nat
  timer_video_id :: jsval
  timer_file_path :: string

definition processing_callback :: "int \<Rightarrow> timer \<Rightarrow> storage \<Rightarrow> storage" where
  "processing_callback random_600 t st =
     (let processedFilePath = timer_file_path t @ ''-processed'';
          thumbnailPath = timer_file_path t @ ''-thumbnail''
      in case updateVideo st (timer_video_id t)
                [''status'' \<mapsto> JStr ''ready'',
                 ''processedFilePath'' \<mapsto> JStr processedFilePath,
                 ''thumbnailPath'' \<mapsto> JStr thumbnailPath,
                 ''duration'' \<mapsto> JNum (random_600 + 60)] of
           Inl err \<Rightarrow> st
         | Inr (updatedVideo, st') \<Rightarrow> st')"

definition upload_video_handler ::
  "lib \<Rightarrow> int \<Rightarrow> storage \<Rightarrow> request \<Rightarrow> response \<times> storage \<times> timer option" where
  "upload_video_handler L now st req =
     (case session req of
        None \<Rightarrow> (respond 401 (message ''Not authenticated''), st, None)
      | Some s \<Rightarrow>
          if \<not> truthy (sess_userId s)
          then (respond 401 (message ''Not authenticated''), st, None)
          else
            (case req_file req of
               None \<Rightarrow> (respond 400 (message ''No file uploaded''), st, None)
             | Some f \<Rightarrow>
                 (let title = prop_of (body req) ''title'';
                      description = prop_of (body req) ''description'';
                      category = prop_of (body req) ''category'';
                      adPlacement = prop_of (body req) ''adPlacement'';
                      adPreferences = prop_of (body req) ''adPreferences''
                  in case (if truthy adPreferences then JSON_parse L adPreferences
                           else Inr (JObj [])) of
                       Inl err \<Rightarrow> (respond 500 (message ''Failed to upload video''), st, None)
                     | Inr prefs \<Rightarrow>
                         (let (video, st') = createVideo now st
                                [''userId'' \<mapsto> sess_userId s,
                                 ''title'' \<mapsto> title,
                                 ''description'' \<mapsto> description,
                                 ''category'' \<mapsto> category,
                                 ''rawFilePath'' \<mapsto> JStr (path f),
                                 ''status'' \<mapsto> JStr ''processing'',
                                 ''adPlacement'' \<mapsto> adPlacement,
                                 ''adPreferences'' \<mapsto> prefs]
                          in (respond 201 video, st',
                              Some \<lparr> delay_ms = 10000,
                                     timer_video_id = prop_of video ''id'',
                                     timer_file_path = path f \<rparr>)))))"

definition post_videos_upload ::
  "lib \<Rightarrow> int \<Rightarrow> storage \<Rightarrow> request \<Rightarrow> outcome \<times> storage \<times> timer option" where
  "post_videos_upload L now st req =
     (case upload_single ''file'' (req_file req) of
        Inl err \<Rightarrow> (Next err, st, None)
      | Inr f \<Rightarrow>
          (let (r, st', t) = upload_video_handler L now st (req\<lparr> req_file := f \<rparr>)
           in (Responded r, st', t)))"

section \<open>Auth routes\<close>

text \<open>
  \<^verbatim>\<open>validateRequest({ body: schema })\<close> answers 400 with the list of validation errors when
  the body does not parse, and otherwise calls the handler with \<^verbatim>\<open>req.body\<close> as it came
  (the parsed copy is dropped, so properties the schema does not name stay in the body).
  The schemas: every column picked by \<^verbatim>\<open>insertUserSchema\<close> is a non-null \<^verbatim>\<open>text\<close>,
  hence a required string; \<^verbatim>\<open>registerUserSchema\<close> adds \<^verbatim>\<open>confirmPassword\<close> and the
  refinement \<^verbatim>\<open>data.password === data.confirmPassword\<close>.
\<close>

definition z_string :: "jsval \<Rightarrow> bool" where
  "z_string x = (case x of JStr s \<Rightarrow> True | _ \<Rightarrow> False)"

definition insertUserSchema :: "obj \<Rightarrow> bool" where
  "insertUserSchema data =
     (z_string (prop_of data ''email'') \<and> z_string (prop_of data ''username'')
      \<and> z_string (prop_of data ''password'') \<and> z_string (prop_of data ''fullName'')
      \<and> z_string (prop_of data ''userType''))"

definition registerUserSchema :: "obj \<Rightarrow> bool" where
  "registerUserSchema data =
     (insertUserSchema data \<and> z_string (prop_of data ''confirmPassword'')
      \<and> strict_eq (prop_of data ''password'') (prop_of data ''confirmPassword''))"

definition loginUserSchema :: "lib \<Rightarrow> obj \<Rightarrow> bool" where
  "loginUserSchema L data =
     ((case prop_of data ''email'' of JStr e \<Rightarrow> is_email L e | _ \<Rightarrow> False)
      \<and> z_string (prop_of data ''password''))"

text \<open>The body of the 400 answer: an array with one entry for the body's errors.\<close>

definition validation_errors :: obj where
  "validation_errors = [''0'' \<mapsto> JObj [(''type'', JStr ''Body'')]]"

text \<open>\<^verbatim>\<open>bcrypt.hash\<close> and \<^verbatim>\<open>bcrypt.compare\<close> reject arguments that are not strings.\<close>

definition bcrypt_hash_call :: "lib \<Rightarrow> jsval \<Rightarrow> error + string" where
  "bcrypt_hash_call L x =
     (case x of JStr s \<Rightarrow> Inr (bcrypt_hash L s) | _ \<Rightarrow> Inl (Error ''Illegal arguments''))"

definition bcrypt_compare_call :: "lib \<Rightarrow> jsval \<Rightarrow> jsval \<Rightarrow> error + bool" where
  "bcrypt_compare_call L x h =
     (case x of
        JStr s \<Rightarrow>
          (case h of
             JStr t \<Rightarrow> Inr (bcrypt_compare L s t)
           | _ \<Rightarrow> Inl (Error ''Illegal arguments''))
      | _ \<Rightarrow> Inl (Error ''Illegal arguments''))"

definition public_user :: "obj \<Rightarrow> obj" where
  "public_user user =
     [''id'' \<mapsto> prop_of user ''id'',
      ''email'' \<mapsto> prop_of user ''email'',
      ''username'' \<mapsto> prop_of user ''username'',
      ''fullName'' \<mapsto> prop_of user ''fullName'',
      ''userType'' \<mapsto> prop_of user ''userType'']"

definition register_handler ::
  "lib \<Rightarrow> int \<Rightarrow> storage \<Rightarrow> request \<Rightarrow> response \<times> storage" where
  "register_handler L now st req =
     (case getUserByEmail L st (prop_of (body req) ''email'') of
        Inl err \<Rightarrow> (respond 500 (message ''Failed to register user''), st)
      | Inr (Some existingUserByEmail) \<Rightarrow>
          (respond 400 (message ''Email already in use''), st)
      | Inr None \<Rightarrow>
          (case getUserByUsername L st (prop_of (body req) ''username'') of
             Inl err \<Rightarrow> (respond 500 (message ''Failed to register user''), st)
           | Inr (Some existingUserByUsername) \<Rightarrow>
               (respond 400 (message ''Username already taken''), st)
           | Inr None \<Rightarrow>
               (case bcrypt_hash_call L (prop_of (body req) ''password'') of
                  Inl err \<Rightarrow> (respond 500 (message ''Failed to register user''), st)
                | Inr hashedPassword \<Rightarrow>
                    (let (newUser, st1) = createUser now st
                           (spread (body req) [''password'' \<mapsto> JStr hashedPassword]);
                         st2 =
                           (if strict_eq (prop_of (body req) ''userType'') (JStr ''company'')
                            then snd (createCompanyProfile st1
                                   [''userId'' \<mapsto> prop_of newUser ''id'',
                                    ''companyName'' \<mapsto> prop_of (body req) ''fullName'',
                                    ''industry'' \<mapsto> JStr [],
                                    ''website'' \<mapsto> JStr [],
                                    ''description'' \<mapsto> JStr []])
                            else snd (createCreatorProfile st1
                                   [''userId'' \<mapsto> prop_of newUser ''id'',
                                    ''bio'' \<mapsto> JStr [],
                                    ''niche'' \<mapsto> JStr [],
                                    ''youtubeChannel'' \<mapsto> JStr []]))
                     in (respond 201 (public_user newUser), st2)))))"

definition post_auth_register ::
  "lib \<Rightarrow> int \<Rightarrow> storage \<Rightarrow> request \<Rightarrow> response \<times> storage" where
  "post_auth_register L now st req =
     (if \<not> registerUserSchema (body req) then (respond 400 validation_errors, st)
      else register_handler L now st req)"

text \<open>
  Login reads the storage and writes the session only, so the handler returns the
  response and the session.
\<close>

definition login_handler ::
  "lib \<Rightarrow> storage \<Rightarrow> request \<Rightarrow> response \<times> session_data option" where
  "login_handler L st req =
     (let email = prop_of (body req) ''email'';
          password = prop_of (body req) ''password''
      in case getUserByEmail L st email of
           Inl err \<Rightarrow> (respond 500 (message ''Failed to login''), session req)
         | Inr None \<Rightarrow> (respond 401 (message ''Invalid credentials''), session req)
         | Inr (Some user) \<Rightarrow>
             (case bcrypt_compare_call L password (prop_of user ''password'') of
                Inl err \<Rightarrow> (respond 500 (message ''Failed to login''), session req)
              | Inr passwordValid \<Rightarrow>
                  if \<not> passwordValid
                  then (respond 401 (message ''Invalid credentials''), session req)
                  else
                    (respond 200 (public_user user),
                     (case session req of
                        None \<Rightarrow> None
                      | Some s \<Rightarrow>
                          Some (s\<lparr> sess_userId := prop_of user ''id'',
                                   sess_userType := prop_of user ''userType'' \<rparr>)))))"

definition post_auth_login ::
  "lib \<Rightarrow> storage \<Rightarrow> request \<Rightarrow> response \<times> session_data option" where
  "post_auth_login L st req =
     (if \<not> loginUserSchema L (body req) then (respond 400 validation_errors, session req)
      else login_handler L st req)"

section \<open>Routing of the by-id routes\<close>

datatype http_method = GET | PATCH | DELETE

datatype entity_kind = Campaign | Ad | Video

text \<open>
  \<^verbatim>\<open>app.get\<close>, \<^verbatim>\<open>app.patch\<close> and \<^verbatim>\<open>app.delete\<close> on \<^verbatim>\<open>/api/campaigns/:id\<close>,
  \<^verbatim>\<open>/api/ads/:id\<close> and \<^verbatim>\<open>/api/videos/:id\<close>: the nine handlers above, selected by method
  and path.
\<close>

fun by_id_route ::
  "entity_kind \<Rightarrow> http_method \<Rightarrow> lib \<Rightarrow> storage \<Rightarrow> disk \<Rightarrow> request
     \<Rightarrow> response \<times> storage \<times> disk" where
  "by_id_route Campaign GET L st d req = (let (r, st') = get_campaign L st req in (r, st', d))"
| "by_id_route Campaign PATCH L st d req = (let (r, st') = patch_campaign L st req in (r, st', d))"
| "by_id_route Campaign DELETE L st d req = (let (r, st') = delete_campaign L st req in (r, st', d))"
| "by_id_route Ad GET L st d req = (let (r, st') = get_ad L st req in (r, st', d))"
| "by_id_route Ad PATCH L st d req = (let (r, st') = patch_ad L st req in (r, st', d))"
| "by_id_route Ad DELETE L st d req = delete_ad L st d req"
| "by_id_route Video GET L st d req = (let (r, st') = get_video L st req in (r, st', d))"
| "by_id_route Video PATCH L st d req = (let (r, st') = patch_video L st req in (r, st', d))"
| "by_id_route Video DELETE L st d req = delete_video L st d req"

text \<open>The entity a by-id route loads: \<^verbatim>\<open>storage.getX(parseInt(req.params.id))\<close>.\<close>

fun load_entity :: "entity_kind \<Rightarrow> lib \<Rightarrow> storage \<Rightarrow> request \<Rightarrow> obj option" where
  "load_entity Campaign L st req = getCampaign st (parseInt L (JStr (params_id req)))"
| "load_entity Ad L st req = getAd st (parseInt L (JStr (params_id req)))"
| "load_entity Video L st req = getVideo st (parseInt L (JStr (params_id req)))"

text \<open>A valid session: \<^verbatim>\<open>req.session && req.session.userId\<close>.\<close>

definition authenticated :: "request \<Rightarrow> bool" where
  "authenticated req = (case session req of None \<Rightarrow> False | Some s \<Rightarrow> truthy (sess_userId s))"

definition session_userId :: "request \<Rightarrow> jsval" where
  "session_userId req = (case session req of None \<Rightarrow> JUndefined | Some s \<Rightarrow> sess_userId s)"

section \<open>Notions used in the statements\<close>

fun outcome_status :: "outcome \<Rightarrow> nat option" where
  "outcome_status (Responded r) = Some (status r)"
| "outcome_status (Next err) = None"

fun outcome_json :: "outcome \<Rightarrow> obj" where
  "outcome_json (Responded r) = json r"
| "outcome_json (Next err) = Map.empty"

text \<open>A property of a record looked up in the storage; undefined when there is no record.\<close>

definition stored_prop :: "obj option \<Rightarrow> string \<Rightarrow> jsval" where
  "stored_prop r k = (case r of None \<Rightarrow> JUndefined | Some v \<Rightarrow> prop_of v k)"

definition non_null :: "jsval \<Rightarrow> bool" where
  "non_null x = (x \<noteq> JNull \<and> x \<noteq> JUndefined)"

text \<open>The properties of an entity that name its files on disk.\<close>

definition file_fields :: "entity_kind \<Rightarrow> string list" where
  "file_fields e =
     (case e of
        Campaign \<Rightarrow> []
      | Ad \<Rightarrow> [''filePath'']
      | Video \<Rightarrow> [''rawFilePath'', ''processedFilePath'', ''thumbnailPath''])"

text \<open>
  Every stored user has a string for e-mail, user name and password. The registration
  route is the only one that creates users, and it keeps this (lemma
  \<open>register_preserves_users_wf\<close> below).
\<close>

definition users_wf :: "storage \<Rightarrow> bool" where
  "users_wf st =
     list_all (\<lambda>u. z_string (prop_of u ''email'') \<and> z_string (prop_of u ''username'')
                    \<and> z_string (prop_of u ''password''))
       (Map_values (users st))"

text \<open>Two strings that are equal up to case.\<close>

definition same_text :: "lib \<Rightarrow> jsval \<Rightarrow> jsval \<Rightarrow> bool" where
  "same_text L x y =
     (case x of
        JStr a \<Rightarrow> (case y of JStr b \<Rightarrow> toLowerCase L a = toLowerCase L b | _ \<Rightarrow> False)
      | _ \<Rightarrow> False)"

definition email_taken :: "lib \<Rightarrow> storage \<Rightarrow> jsval \<Rightarrow> bool" where
  "email_taken L st e =
     list_ex (\<lambda>u. same_text L (prop_of u ''email'') e) (Map_values (users st))"

definition username_taken :: "lib \<Rightarrow> storage \<Rightarrow> jsval \<Rightarrow> bool" where
  "username_taken L st n =
     list_ex (\<lambda>u. same_text L (prop_of u ''username'') n) (Map_values (users st))"

section \<open>Sample data\<close>

text \<open>
  A concrete choice of the library functions, and requests and storages built by running
  the routes from the empty storage. The stand-ins are small: lowercasing maps \<open>A\<close> to
  \<open>a\<close>, the hash prefixes its input, \<^verbatim>\<open>parseInt\<close> knows \<open>1\<close> and \<open>2\<close>.
\<close>

definition sample_lib :: lib where
  "sample_lib =
     \<lparr> toLowerCase = map (\<lambda>c. if c = CHR ''A'' then CHR ''a'' else c),
       bcrypt_hash = (\<lambda>p. ''$2a$10$'' @ p),
       bcrypt_compare = (\<lambda>p h. h = ''$2a$10$'' @ p),
       parseInt = (\<lambda>x. case x of
                       JStr s \<Rightarrow> if s = ''1'' then JNum 1 else if s = ''2'' then JNum 2 else JNaN
                     | JNum n \<Rightarrow> JNum n
                     | _ \<Rightarrow> JNaN),
       JSON_parse = (\<lambda>x. Inl SyntaxError),
       is_email = (\<lambda>s. CHR ''@'' \<in> set s) \<rparr>"

definition anonymous :: "session_data option" where
  "anonymous = Some \<lparr> sess_userId = JUndefined, sess_userType = JUndefined \<rparr>"

definition logged_in :: "int \<Rightarrow> string \<Rightarrow> session_data option" where
  "logged_in i t = Some \<lparr> sess_userId = JNum i, sess_userType = JStr t \<rparr>"

definition sample_file :: "nat \<Rightarrow> multer_file" where
  "sample_file n =
     \<lparr> fieldname = ''file'', originalname = ''clip.mp4'', mimetype = ''video/mp4'',
       size_bytes = n, path = ''uploads/videos/file-1-1.mp4'' \<rparr>"

definition by_id_request :: "session_data option \<Rightarrow> string \<Rightarrow> obj \<Rightarrow> request" where
  "by_id_request s i b = \<lparr> session = s, params_id = i, body = b, req_file = None \<rparr>"

definition owner_request :: "string \<Rightarrow> obj \<Rightarrow> request" where
  "owner_request i b = by_id_request (logged_in 1 ''individual'') i b"

definition upload_request :: "session_data option \<Rightarrow> obj \<Rightarrow> nat \<Rightarrow> request" where
  "upload_request s b n =
     \<lparr> session = s, params_id = [], body = b, req_file = Some (sample_file n) \<rparr>"

definition auth_request :: "obj \<Rightarrow> request" where
  "auth_request b = \<lparr> session = anonymous, params_id = [], body = b, req_file = None \<rparr>"

definition video_form :: obj where
  "video_form = [''title'' \<mapsto> JStr ''Demo'', ''adPlacement'' \<mapsto> JStr ''pre-roll'']"

text \<open>The form fields of an ad upload, with fields the handler is to ignore.\<close>

definition ad_form :: obj where
  "ad_form =
     [''title'' \<mapsto> JStr ''Spring sale'', ''campaignId'' \<mapsto> JStr ''0'',
      ''duration'' \<mapsto> JStr ''999'', ''status'' \<mapsto> JStr ''approved'',
      ''userId'' \<mapsto> JStr ''42'']"

definition store_with_video :: storage where
  "store_with_video =
     fst (snd (post_videos_upload sample_lib 0 MemStorage
                 (upload_request (logged_in 1 ''individual'') video_form 1048576)))"

definition empty_disk :: disk where
  "empty_disk = \<lparr> files = {}, unlink_calls = [] \<rparr>"

definition sample_timer :: timer where
  "sample_timer =
     \<lparr> delay_ms = 10000, timer_video_id = JNum 1,
       timer_file_path = ''uploads/videos/file-1-1.mp4'' \<rparr>"

definition store_ready :: storage where
  "store_ready = processing_callback 42 sample_timer store_with_video"

definition takeover_patch :: obj where
  "takeover_patch =
     [''title'' \<mapsto> JStr ''Renamed'', ''userId'' \<mapsto> JNum 7, ''id'' \<mapsto> JNum 99,
      ''createdAt'' \<mapsto> JStr ''never'']"

text \<open>
  A patch by the owner that marks the video ready and sets its processed path to the
  empty string, and the storage after it.
\<close>

definition blank_patch :: obj where
  "blank_patch = [''status'' \<mapsto> JStr ''ready'', ''processedFilePath'' \<mapsto> JStr []]"

definition store_blank :: storage where
  "store_blank =
     fst (snd (by_id_route Video PATCH sample_lib store_with_video empty_disk
                 (owner_request ''1'' blank_patch)))"

definition registration_form :: obj where
  "registration_form =
     [''email'' \<mapsto> JStr ''a@x.com'', ''username'' \<mapsto> JStr ''a'',
      ''password'' \<mapsto> JStr ''password1'', ''confirmPassword'' \<mapsto> JStr ''password1'',
      ''fullName'' \<mapsto> JStr ''A'', ''userType'' \<mapsto> JStr ''individual'']"

definition duplicate_form :: obj where
  "duplicate_form =
     [''email'' \<mapsto> JStr ''A@x.com'', ''username'' \<mapsto> JStr ''b'',
      ''password'' \<mapsto> JStr ''password2'', ''confirmPassword'' \<mapsto> JStr ''password2'',
      ''fullName'' \<mapsto> JStr ''B'', ''userType'' \<mapsto> JStr ''company'']"

definition login_form :: obj where
  "login_form = [''email'' \<mapsto> JStr ''a@x.com'', ''password'' \<mapsto> JStr ''wrong'']"

definition store_with_user :: storage where
  "store_with_user =
     snd (post_auth_register sample_lib 0 MemStorage (auth_request registration_form))"

section \<open>Basic facts\<close>

lemmas handler_defs =
  get_campaign_def patch_campaign_def delete_campaign_def
  get_ad_def patch_ad_def delete_ad_def
  get_video_def patch_video_def delete_video_def

lemmas storage_defs =
  getCampaign_def updateCampaign_def deleteCampaign_def
  getAd_def updateAd_def deleteAd_def
  getVideo_def updateVideo_def deleteVideo_def

lemmas eval_defs =
  handler_defs storage_defs sample_lib_def anonymous_def logged_in_def sample_file_def
  by_id_request_def owner_request_def upload_request_def video_form_def ad_form_def
  store_with_video_def empty_disk_def sample_timer_def store_ready_def
  takeover_patch_def blank_patch_def store_blank_def
  post_videos_upload_def upload_video_handler_def post_ads_upload_def upload_ad_handler_def
  upload_single_def fileFilter_def fileSize_def createVideo_def createAd_def
  MemStorage_def Map_get_def Map_set_def Map_delete_def Map_values_def
  authenticated_def session_userId_def respond_def message_def prop_of_def spread_def
  js_or_def unlink_catch_def fs_unlink_def processing_callback_def get_video_download_def
  stored_prop_def non_null_def file_fields_def Let_def

lemmas auth_eval_defs =
  sample_lib_def anonymous_def auth_request_def registration_form_def duplicate_form_def
  login_form_def store_with_user_def post_auth_register_def register_handler_def
  post_auth_login_def login_handler_def registerUserSchema_def insertUserSchema_def
  loginUserSchema_def z_string_def getUserByEmail_def getUserByUsername_def getUser_def
  same_lower_def toLowerCase_call_def bcrypt_hash_call_def bcrypt_compare_call_def
  createUser_def createCompanyProfile_def createCreatorProfile_def public_user_def
  users_wf_def email_taken_def username_taken_def same_text_def stored_prop_def
  MemStorage_def Map_get_def Map_set_def Map_values_def
  respond_def message_def prop_of_def spread_def Let_def

lemma Map_get_set: "Map_get (Map_set m k v) k' = (if k' = k then Some v else Map_get m k')"
  by (simp add: Map_get_def Map_set_def update_conv')

lemma Map_get_delete: "Map_get (Map_delete m k) k' = (if k' = k then None else Map_get m k')"
  by (simp add: Map_get_def Map_delete_def delete_conv')

lemma Map_values_set_subset:
  "set (Map_values (Map_set m k v)) \<subseteq> insert v (set (Map_values m))"
  unfolding Map_values_def Map_set_def
  by (induction m) auto

lemma strict_eq_JStr: "strict_eq x (JStr s) = (x = JStr s)"
  by (cases x) auto

lemma prop_of_upd: "prop_of (m(k \<mapsto> v)) k' = (if k' = k then v else prop_of m k')"
  by (simp add: prop_of_def)

lemma prop_of_spread_upd:
  "prop_of (spread a (m(k \<mapsto> v))) k' = (if k' = k then v else prop_of (spread a m) k')"
  by (simp add: prop_of_def spread_def)

lemma prop_of_spread_empty: "prop_of (spread a Map.empty) k = prop_of a k"
  by (simp add: prop_of_def spread_def)

lemma z_string_iff: "z_string x \<longleftrightarrow> (\<exists>s. x = JStr s)"
  by (cases x) (auto simp: z_string_def)

lemma unlink_catch_calls: "unlink_calls (unlink_catch p d) = unlink_calls d @ [p]"
  by (auto simp: unlink_catch_def fs_unlink_def Let_def split: jsval.splits)

lemma unlink_catch_files: "files (unlink_catch p d) = files d - {s. p = JStr s}"
  by (auto simp: unlink_catch_def fs_unlink_def Let_def split: jsval.splits)

section \<open>Upload size limit\<close>

text \<open>
  What the shared limit does on both upload routes: a file part longer than \<open>fileSize\<close>
  (2GB) ends in an error passed to \<^verbatim>\<open>next\<close>, and the storage stays as it was.
\<close>

lemma upload_over_limit_rejected:
  assumes "req_file req = Some f" and "size_bytes f > fileSize"
  shows "\<exists>err. post_ads_upload L now st req = (Next err, st)"
    and "\<exists>err. post_videos_upload L now st req = (Next err, st, None)"
  using assms
  by (auto simp: post_ads_upload_def post_videos_upload_def upload_single_def fileFilter_def
        split: sum.splits)

text \<open>
  Claim C1: a \<^verbatim>\<open>POST /api/ads/upload\<close> by an authenticated user with a file larger than
  100MB is rejected and creates no Ad record. The route does not do this: its middleware
  is the \<^verbatim>\<open>upload\<close> instance shared with the video route, whose only limit is 2GB. An
  authenticated upload of a 150MB (157286400 bytes) \<^verbatim>\<open>video/mp4\<close> file to the empty
  storage is answered 201, and the storage then holds the ad, with the path of the file.
\<close>

theorem ads_upload_150MB_accepted:
  "outcome_status (fst (post_ads_upload sample_lib 0 MemStorage
                          (upload_request (logged_in 1 ''company'') ad_form 157286400)))
     = Some 201
 \<and> (157286400 :: nat) > 100 * 1024 * 1024
 \<and> getAd MemStorage (JNum 1) = None
 \<and> stored_prop (getAd (snd (post_ads_upload sample_lib 0 MemStorage
                              (upload_request (logged_in 1 ''company'') ad_form 157286400)))
                  (JNum 1)) ''filePath''
     = JStr ''uploads/videos/file-1-1.mp4''"
  by (simp add: eval_defs)

section \<open>Order of the checks on the by-id routes\<close>

text \<open>
  Claim C2: on each of \<^verbatim>\<open>GET\<close>, \<^verbatim>\<open>PATCH\<close>, \<^verbatim>\<open>DELETE\<close> of \<^verbatim>\<open>/api/campaigns/:id\<close>,
  \<^verbatim>\<open>/api/ads/:id\<close> and \<^verbatim>\<open>/api/videos/:id\<close> the checks come in this order: without a
  valid session the answer is 401; otherwise, when the entity is absent, 404; otherwise,
  when the entity's \<^verbatim>\<open>userId\<close> is not the session's, 403; and only when all three pass
  is the operation carried out (200). In the three refusals the storage and the disk are
  untouched.
\<close>

theorem by_id_checks_order:
  "case by_id_route e m L st d req of (r, st', d') \<Rightarrow>
     (\<not> authenticated req \<longrightarrow> status r = 401 \<and> st' = st \<and> d' = d)
   \<and> (authenticated req \<and> load_entity e L st req = None
        \<longrightarrow> status r = 404 \<and> st' = st \<and> d' = d)
   \<and> (\<forall>x. authenticated req \<and> load_entity e L st req = Some x
            \<and> \<not> strict_eq (prop_of x ''userId'') (session_userId req)
        \<longrightarrow> status r = 403 \<and> st' = st \<and> d' = d)
   \<and> (\<forall>x. authenticated req \<and> load_entity e L st req = Some x
            \<and> strict_eq (prop_of x ''userId'') (session_userId req)
        \<longrightarrow> status r = 200)"
  by (cases e; cases m)
     (auto simp: handler_defs storage_defs authenticated_def session_userId_def respond_def
        Let_def split: option.splits)

theorem by_id_checks_order_witness:
  "status (fst (by_id_route Video GET sample_lib store_with_video empty_disk
                  (by_id_request anonymous ''1'' Map.empty))) = 401
 \<and> status (fst (by_id_route Video GET sample_lib store_with_video empty_disk
                  (by_id_request (logged_in 1 ''individual'') ''2'' Map.empty))) = 404
 \<and> status (fst (by_id_route Video GET sample_lib store_with_video empty_disk
                  (by_id_request (logged_in 2 ''individual'') ''1'' Map.empty))) = 403
 \<and> status (fst (by_id_route Video GET sample_lib store_with_video empty_disk
                  (by_id_request (logged_in 1 ''individual'') ''1'' Map.empty))) = 200"
  using
    by_id_checks_order[where e = Video and m = GET and L = sample_lib
      and st = store_with_video and d = empty_disk
      and req = "by_id_request anonymous ''1'' Map.empty"]
    by_id_checks_order[where e = Video and m = GET and L = sample_lib
      and st = store_with_video and d = empty_disk
      and req = "by_id_request (logged_in 1 ''individual'') ''2'' Map.empty"]
    by_id_checks_order[where e = Video and m = GET and L = sample_lib
      and st = store_with_video and d = empty_disk
      and req = "by_id_request (logged_in 2 ''individual'') ''1'' Map.empty"]
    by_id_checks_order[where e = Video and m = GET and L = sample_lib
      and st = store_with_video and d = empty_disk
      and req = "by_id_request (logged_in 1 ''individual'') ''1'' Map.empty"]
  by (simp add: eval_defs split: prod.splits)

section \<open>Login and registration\<close>

lemma same_lower_strings:
  "z_string x \<Longrightarrow> z_string y \<Longrightarrow> same_lower L x y = Inr (same_text L x y)"
  by (auto simp: z_string_iff same_lower_def same_text_def toLowerCase_call_def)

lemma Array_find_strings:
  assumes "list_all (\<lambda>u. z_string (f u)) us" and "z_string y"
  shows "Array_find (\<lambda>u. same_lower L (f u) y) us = Inr (find (\<lambda>u. same_text L (f u) y) us)"
  using assms by (induction us) (auto simp: same_lower_strings)

lemma find_None_list_ex: "find P xs = None \<longleftrightarrow> \<not> list_ex P xs"
  by (auto simp: find_None_iff list_ex_iff)

lemma getUserByEmail_wf:
  assumes "users_wf st" and "z_string e"
  shows "getUserByEmail L st e
           = Inr (find (\<lambda>u. same_text L (prop_of u ''email'') e) (Map_values (users st)))"
proof -
  from assms(1) have "list_all (\<lambda>u. z_string (prop_of u ''email'')) (Map_values (users st))"
    by (simp add: users_wf_def list_all_iff)
  from Array_find_strings[OF this assms(2)] show ?thesis
    by (simp add: getUserByEmail_def)
qed

lemma getUserByUsername_wf:
  assumes "users_wf st" and "z_string n"
  shows "getUserByUsername L st n
           = Inr (find (\<lambda>u. same_text L (prop_of u ''username'') n) (Map_values (users st)))"
proof -
  from assms(1) have "list_all (\<lambda>u. z_string (prop_of u ''username'')) (Map_values (users st))"
    by (simp add: users_wf_def list_all_iff)
  from Array_find_strings[OF this assms(2)] show ?thesis
    by (simp add: getUserByUsername_def)
qed

lemma same_text_z_string: "same_text L x y \<Longrightarrow> z_string y"
  by (auto simp: same_text_def z_string_def split: jsval.splits)

lemma taken_z_string:
  "email_taken L st e \<Longrightarrow> z_string e" "username_taken L st n \<Longrightarrow> z_string n"
  by (auto simp: email_taken_def username_taken_def list_ex_iff dest: same_text_z_string)

text \<open>The storage invariant: it holds at the start and every registration keeps it.\<close>

lemma users_wf_MemStorage: "users_wf MemStorage"
  by (simp add: users_wf_def MemStorage_def Map_values_def)

lemma register_handler_users:
  "users (snd (register_handler L now st req)) = users st
   \<or> (\<exists>p. prop_of (body req) ''password'' = JStr p
          \<and> users (snd (register_handler L now st req))
              = Map_set (users st) (JNum (userId st))
                  (spread (spread (body req) [''password'' \<mapsto> JStr (bcrypt_hash L p)])
                     [''id'' \<mapsto> JNum (userId st), ''createdAt'' \<mapsto> JDate now]))"
  by (auto simp: register_handler_def createUser_def createCompanyProfile_def
        createCreatorProfile_def bcrypt_hash_call_def Let_def
        split: sum.splits option.splits jsval.splits)

lemma register_preserves_users_wf:
  assumes "users_wf st"
  shows "users_wf (snd (post_auth_register L now st req))"
proof (cases "registerUserSchema (body req)")
  case False
  with assms show ?thesis by (simp add: post_auth_register_def)
next
  case True
  then have e: "z_string (prop_of (body req) ''email'')"
    and n: "z_string (prop_of (body req) ''username'')"
    by (simp_all add: registerUserSchema_def insertUserSchema_def)
  let ?st' = "snd (register_handler L now st req)"
  from register_handler_users[of L now st req] have "users_wf ?st'"
  proof
    assume "users ?st' = users st"
    with assms show ?thesis by (simp add: users_wf_def)
  next
    assume "\<exists>p. prop_of (body req) ''password'' = JStr p
          \<and> users ?st'
              = Map_set (users st) (JNum (userId st))
                  (spread (spread (body req) [''password'' \<mapsto> JStr (bcrypt_hash L p)])
                     [''id'' \<mapsto> JNum (userId st), ''createdAt'' \<mapsto> JDate now])"
    then obtain p where u: "users ?st'
              = Map_set (users st) (JNum (userId st))
                  (spread (spread (body req) [''password'' \<mapsto> JStr (bcrypt_hash L p)])
                     [''id'' \<mapsto> JNum (userId st), ''createdAt'' \<mapsto> JDate now])"
      by blast
    let ?u = "spread (spread (body req) [''password'' \<mapsto> JStr (bcrypt_hash L p)])
                     [''id'' \<mapsto> JNum (userId st), ''createdAt'' \<mapsto> JDate now]"
    have good: "z_string (prop_of ?u ''email'')" "z_string (prop_of ?u ''username'')"
      "z_string (prop_of ?u ''password'')"
      using e n by (simp_all add: prop_of_spread_upd prop_of_spread_empty z_string_def)
    from Map_values_set_subset[of "users st" "JNum (userId st)" ?u] assms good u
    show ?thesis
      by (auto simp: users_wf_def list_all_iff)
  qed
  with True show ?thesis by (simp add: post_auth_register_def)
qed

text \<open>
  Claim C3: a login whose e-mail no user has and a login whose e-mail a user has but
  whose password does not match that user's hash get the same answer, and for a body
  that passes the login schema this answer is 401 with the message
  \<open>Invalid credentials\<close>; the session is left as it was. (A body that fails the schema
  is answered 400 in both cases alike.)
\<close>

theorem login_no_enumeration:
  assumes "users_wf st1" and "users_wf st2"
    and "\<not> email_taken L st1 (prop_of (body req) ''email'')"
    and "email_taken L st2 (prop_of (body req) ''email'')"
    and "\<forall>u \<in> set (Map_values (users st2)).
           same_text L (prop_of u ''email'') (prop_of (body req) ''email'') \<longrightarrow>
           bcrypt_compare_call L (prop_of (body req) ''password'') (prop_of u ''password'')
             = Inr False"
  shows "post_auth_login L st1 req = post_auth_login L st2 req
       \<and> (loginUserSchema L (body req) \<longrightarrow>
            post_auth_login L st1 req
              = (respond 401 (message ''Invalid credentials''), session req))"
proof -
  let ?e = "prop_of (body req) ''email''"
  have e: "z_string ?e" by (rule taken_z_string(1)[OF assms(4)])
  have g1: "getUserByEmail L st1 ?e = Inr None"
    using getUserByEmail_wf[OF assms(1) e, of L] assms(3)
    by (simp add: find_None_list_ex email_taken_def)
  let ?f = "find (\<lambda>u. same_text L (prop_of u ''email'') ?e) (Map_values (users st2))"
  have "?f \<noteq> None" using assms(4) by (simp add: find_None_list_ex email_taken_def)
  then obtain u where u: "?f = Some u" by auto
  then have "u \<in> set (Map_values (users st2))" and "same_text L (prop_of u ''email'') ?e"
    by (auto simp: find_Some_iff)
  with assms(5) have c: "bcrypt_compare_call L (prop_of (body req) ''password'')
      (prop_of u ''password'') = Inr False" by blast
  have g2: "getUserByEmail L st2 ?e = Inr (Some u)"
    using getUserByEmail_wf[OF assms(2) e, of L] u by simp
  have l1: "login_handler L st1 req = (respond 401 (message ''Invalid credentials''), session req)"
    using g1 by (simp add: login_handler_def)
  have l2: "login_handler L st2 req = (respond 401 (message ''Invalid credentials''), session req)"
    using g2 c by (simp add: login_handler_def)
  from l1 l2 show ?thesis by (simp add: post_auth_login_def)
qed

theorem login_no_enumeration_witness:
  "post_auth_login sample_lib MemStorage (auth_request login_form)
     = post_auth_login sample_lib store_with_user (auth_request login_form)
 \<and> status (fst (post_auth_login sample_lib store_with_user (auth_request login_form))) = 401
 \<and> prop_of (json (fst (post_auth_login sample_lib store_with_user
                          (auth_request login_form)))) ''message''
     = JStr ''Invalid credentials''"
proof -
  have wf1: "users_wf MemStorage" by (simp add: auth_eval_defs)
  have wf2: "users_wf store_with_user" by (simp add: auth_eval_defs)
  have a: "\<not> email_taken sample_lib MemStorage
              (prop_of (body (auth_request login_form)) ''email'')"
    by (simp add: auth_eval_defs)
  have b: "email_taken sample_lib store_with_user
              (prop_of (body (auth_request login_form)) ''email'')"
    by (simp add: auth_eval_defs)
  have c: "\<forall>u \<in> set (Map_values (users store_with_user)).
             same_text sample_lib (prop_of u ''email'')
               (prop_of (body (auth_request login_form)) ''email'') \<longrightarrow>
             bcrypt_compare_call sample_lib (prop_of (body (auth_request login_form)) ''password'')
               (prop_of u ''password'') = Inr False"
    by (simp add: auth_eval_defs)
  have v: "loginUserSchema sample_lib (body (auth_request login_form))"
    by (simp add: auth_eval_defs)
  from login_no_enumeration[OF wf1 wf2 a b c] v
  have eq: "post_auth_login sample_lib MemStorage (auth_request login_form)
              = post_auth_login sample_lib store_with_user (auth_request login_form)"
    and r: "post_auth_login sample_lib MemStorage (auth_request login_form)
              = (respond 401 (message ''Invalid credentials''), session (auth_request login_form))"
    by blast+
  from eq r have "post_auth_login sample_lib store_with_user (auth_request login_form)
              = (respond 401 (message ''Invalid credentials''), session (auth_request login_form))"
    by simp
  with eq show ?thesis
    by (simp add: respond_def message_def prop_of_def)
qed

text \<open>
  Claim C4: a registration whose e-mail or user name is already taken by a stored user,
  compared without regard to case, is answered 400 and leaves the storage as it was: no
  user and no profile is created.
\<close>

theorem register_duplicate_rejected:
  assumes "users_wf st"
    and "email_taken L st (prop_of (body req) ''email'')
         \<or> username_taken L st (prop_of (body req) ''username'')"
  shows "case post_auth_register L now st req of (r, st') \<Rightarrow> status r = 400 \<and> st' = st"
proof (cases "registerUserSchema (body req)")
  case False
  then show ?thesis by (simp add: post_auth_register_def respond_def)
next
  case True
  then have e: "z_string (prop_of (body req) ''email'')"
    and n: "z_string (prop_of (body req) ''username'')"
    by (simp_all add: registerUserSchema_def insertUserSchema_def)
  let ?fe = "find (\<lambda>u. same_text L (prop_of u ''email'') (prop_of (body req) ''email''))
               (Map_values (users st))"
  let ?fn = "find (\<lambda>u. same_text L (prop_of u ''username'') (prop_of (body req) ''username''))
               (Map_values (users st))"
  have ge: "getUserByEmail L st (prop_of (body req) ''email'') = Inr ?fe"
    by (rule getUserByEmail_wf[OF assms(1) e])
  have gn: "getUserByUsername L st (prop_of (body req) ''username'') = Inr ?fn"
    by (rule getUserByUsername_wf[OF assms(1) n])
  show ?thesis
  proof (cases ?fe)
    case (Some u)
    with True ge show ?thesis
      by (simp add: post_auth_register_def register_handler_def respond_def)
  next
    case None
    then have "\<not> email_taken L st (prop_of (body req) ''email'')"
      by (simp add: find_None_list_ex email_taken_def)
    with assms(2) have "username_taken L st (prop_of (body req) ''username'')" by simp
    then have "?fn \<noteq> None"
      by (simp add: find_None_list_ex username_taken_def)
    then obtain u where "?fn = Some u" by auto
    with True ge gn None show ?thesis
      by (simp add: post_auth_register_def register_handler_def respond_def)
  qed
qed

theorem register_duplicate_rejected_witness:
  "status (fst (post_auth_register sample_lib 1 store_with_user (auth_request duplicate_form)))
     = 400
 \<and> snd (post_auth_register sample_lib 1 store_with_user (auth_request duplicate_form))
     = store_with_user"
proof -
  have wf: "users_wf store_with_user"
    by (simp add: auth_eval_defs)
  have taken: "email_taken sample_lib store_with_user
                 (prop_of (body (auth_request duplicate_form)) ''email'')
             \<or> username_taken sample_lib store_with_user
                 (prop_of (body (auth_request duplicate_form)) ''username'')"
    by (simp add: auth_eval_defs)
  from register_duplicate_rejected[OF wf taken, of 1] show ?thesis
    by (simp split: prod.splits)
qed

lemma register_handler_fresh:
  assumes "getUserByEmail L st (prop_of (body req) ''email'') = Inr None"
    and "getUserByUsername L st (prop_of (body req) ''username'') = Inr None"
    and "prop_of (body req) ''password'' = JStr p"
  shows "register_handler L now st req =
           (let (newUser, st1) = createUser now st
                  (spread (body req) [''password'' \<mapsto> JStr (bcrypt_hash L p)]);
                st2 =
                  (if strict_eq (prop_of (body req) ''userType'') (JStr ''company'')
                   then snd (createCompanyProfile st1
                          [''userId'' \<mapsto> prop_of newUser ''id'',
                           ''companyName'' \<mapsto> prop_of (body req) ''fullName'',
                           ''industry'' \<mapsto> JStr [],
                           ''website'' \<mapsto> JStr [],
                           ''description'' \<mapsto> JStr []])
                   else snd (createCreatorProfile st1
                          [''userId'' \<mapsto> prop_of newUser ''id'',
                           ''bio'' \<mapsto> JStr [],
                           ''niche'' \<mapsto> JStr [],
                           ''youtubeChannel'' \<mapsto> JStr []]))
            in (respond 201 (public_user newUser), st2))"
  using assms by (simp add: register_handler_def bcrypt_hash_call_def)

lemma createUser_result:
  assumes "createUser now st user = (u, st1)"
  shows "getUser st1 (JNum (userId st)) = Some u"
    and "prop_of u ''id'' = JNum (userId st)"
    and "k \<noteq> ''id'' \<Longrightarrow> k \<noteq> ''createdAt'' \<Longrightarrow> prop_of u k = prop_of user k"
    and "companyProfiles st1 = companyProfiles st"
    and "creatorProfiles st1 = creatorProfiles st"
    and "companyProfileId st1 = companyProfileId st"
    and "creatorProfileId st1 = creatorProfileId st"
  using assms
  by (auto simp: createUser_def getUser_def Map_get_set Let_def prop_of_spread_upd
        prop_of_spread_empty)

lemma createCompanyProfile_result:
  assumes "createCompanyProfile st1 profile = (c, st2)"
  shows "Map_get (companyProfiles st2) (JNum (companyProfileId st1)) = Some c"
    and "k \<noteq> ''id'' \<Longrightarrow> prop_of c k = prop_of profile k"
    and "users st2 = users st1"
    and "creatorProfiles st2 = creatorProfiles st1"
  using assms
  by (auto simp: createCompanyProfile_def Map_get_set Let_def prop_of_spread_upd
        prop_of_spread_empty)

lemma createCreatorProfile_result:
  assumes "createCreatorProfile st1 profile = (c, st2)"
  shows "Map_get (creatorProfiles st2) (JNum (creatorProfileId st1)) = Some c"
    and "k \<noteq> ''id'' \<Longrightarrow> prop_of c k = prop_of profile k"
    and "users st2 = users st1"
    and "companyProfiles st2 = companyProfiles st1"
  using assms
  by (auto simp: createCreatorProfile_def Map_get_set Let_def prop_of_spread_upd
        prop_of_spread_empty)

text \<open>
  Claim C5: a registration that passes the schema, with an e-mail and a user name that
  no stored user has, is answered 201 with a body that has no \<^verbatim>\<open>password\<close> property;
  the user stored under the new id has the request's \<^verbatim>\<open>userType\<close>, and its
  \<^verbatim>\<open>password\<close> is the value of \<^verbatim>\<open>bcrypt.hash\<close> on the request's password, hence not
  the plaintext wherever the hash of a string differs from the string; a company profile
  (for \<^verbatim>\<open>userType\<close> \<open>company\<close>) or else a creator profile is created with the new
  user's id as its \<^verbatim>\<open>userId\<close>, and no profile of the other kind.
\<close>

theorem register_creates_user_and_profile:
  assumes "users_wf st"
    and "registerUserSchema (body req)"
    and "\<not> email_taken L st (prop_of (body req) ''email'')"
    and "\<not> username_taken L st (prop_of (body req) ''username'')"
  shows "case post_auth_register L now st req of (r, st') \<Rightarrow>
           status r = 201
         \<and> json r ''password'' = None
         \<and> prop_of (json r) ''id'' = JNum (userId st)
         \<and> (\<exists>u p. getUser st' (JNum (userId st)) = Some u
                \<and> prop_of u ''id'' = JNum (userId st)
                \<and> prop_of u ''userType'' = prop_of (body req) ''userType''
                \<and> prop_of (body req) ''password'' = JStr p
                \<and> prop_of u ''password'' = JStr (bcrypt_hash L p)
                \<and> (bcrypt_hash L p \<noteq> p \<longrightarrow> prop_of u ''password'' \<noteq> JStr p))
         \<and> (if prop_of (body req) ''userType'' = JStr ''company''
             then (\<exists>c. Map_get (companyProfiles st') (JNum (companyProfileId st)) = Some c
                      \<and> prop_of c ''userId'' = JNum (userId st))
                  \<and> creatorProfiles st' = creatorProfiles st
             else (\<exists>c. Map_get (creatorProfiles st') (JNum (creatorProfileId st)) = Some c
                      \<and> prop_of c ''userId'' = JNum (userId st))
                  \<and> companyProfiles st' = companyProfiles st)"
proof -
  from assms(2) have e: "z_string (prop_of (body req) ''email'')"
    and n: "z_string (prop_of (body req) ''username'')"
    and pw: "z_string (prop_of (body req) ''password'')"
    by (simp_all add: registerUserSchema_def insertUserSchema_def)
  from pw obtain p where p: "prop_of (body req) ''password'' = JStr p"
    by (auto simp: z_string_iff)
  have ge: "getUserByEmail L st (prop_of (body req) ''email'') = Inr None"
    using getUserByEmail_wf[OF assms(1) e, of L] assms(3)
    by (simp add: find_None_list_ex email_taken_def)
  have gn: "getUserByUsername L st (prop_of (body req) ''username'') = Inr None"
    using getUserByUsername_wf[OF assms(1) n, of L] assms(4)
    by (simp add: find_None_list_ex username_taken_def)
  obtain u st1 where cu: "createUser now st
      (spread (body req) [''password'' \<mapsto> JStr (bcrypt_hash L p)]) = (u, st1)"
    by (cases "createUser now st (spread (body req) [''password'' \<mapsto> JStr (bcrypt_hash L p)])")
  note U = createUser_result[OF cu]
  have uid: "prop_of u ''id'' = JNum (userId st)" by (rule U(2))
  have utype: "prop_of u ''userType'' = prop_of (body req) ''userType''"
    using U(3)[of "''userType''"] by (simp add: prop_of_spread_upd prop_of_spread_empty)
  have upw: "prop_of u ''password'' = JStr (bcrypt_hash L p)"
    using U(3)[of "''password''"] by (simp add: prop_of_spread_upd)
  show ?thesis
  proof (cases "prop_of (body req) ''userType'' = JStr ''company''")
    case True
    obtain c st2 where cc: "createCompanyProfile st1
        [''userId'' \<mapsto> prop_of u ''id'',
         ''companyName'' \<mapsto> prop_of (body req) ''fullName'',
         ''industry'' \<mapsto> JStr [], ''website'' \<mapsto> JStr [], ''description'' \<mapsto> JStr []]
        = (c, st2)"
      by (cases "createCompanyProfile st1
        [''userId'' \<mapsto> prop_of u ''id'',
         ''companyName'' \<mapsto> prop_of (body req) ''fullName'',
         ''industry'' \<mapsto> JStr [], ''website'' \<mapsto> JStr [], ''description'' \<mapsto> JStr []]")
    note C = createCompanyProfile_result[OF cc]
    have r: "post_auth_register L now st req = (respond 201 (public_user u), st2)"
      using assms(2) register_handler_fresh[OF ge gn p, of now] cu cc True
      by (simp add: post_auth_register_def strict_eq_JStr)
    have cuid: "prop_of c ''userId'' = JNum (userId st)"
      using C(2)[of "''userId''"] uid by (simp add: prop_of_upd)
    have gu: "getUser st2 (JNum (userId st)) = Some u"
      using U(1) C(3) by (simp add: getUser_def)
    have cp: "Map_get (companyProfiles st2) (JNum (companyProfileId st)) = Some c"
      using C(1) U(6) by simp
    have cr: "creatorProfiles st2 = creatorProfiles st"
      using C(4) U(5) by simp
    from r True uid utype upw p cuid gu cp cr show ?thesis
      by (simp add: respond_def public_user_def prop_of_upd)
  next
    case False
    obtain c st2 where cc: "createCreatorProfile st1
        [''userId'' \<mapsto> prop_of u ''id'',
         ''bio'' \<mapsto> JStr [], ''niche'' \<mapsto> JStr [], ''youtubeChannel'' \<mapsto> JStr []]
        = (c, st2)"
      by (cases "createCreatorProfile st1
        [''userId'' \<mapsto> prop_of u ''id'',
         ''bio'' \<mapsto> JStr [], ''niche'' \<mapsto> JStr [], ''youtubeChannel'' \<mapsto> JStr []]")
    note C = createCreatorProfile_result[OF cc]
    have r: "post_auth_register L now st req = (respond 201 (public_user u), st2)"
      using assms(2) register_handler_fresh[OF ge gn p, of now] cu cc False
      by (simp add: post_auth_register_def strict_eq_JStr)
    have cuid: "prop_of c ''userId'' = JNum (userId st)"
      using C(2)[of "''userId''"] uid by (simp add: prop_of_upd)
    have gu: "getUser st2 (JNum (userId st)) = Some u"
      using U(1) C(3) by (simp add: getUser_def)
    have cp: "Map_get (creatorProfiles st2) (JNum (creatorProfileId st)) = Some c"
      using C(1) U(7) by simp
    have cr: "companyProfiles st2 = companyProfiles st"
      using C(4) U(4) by simp
    from r False uid utype upw p cuid gu cp cr show ?thesis
      by (simp add: respond_def public_user_def prop_of_upd)
  qed
qed

theorem register_creates_user_and_profile_witness:
  "status (fst (post_auth_register sample_lib 0 MemStorage (auth_request registration_form)))
     = 201
 \<and> json (fst (post_auth_register sample_lib 0 MemStorage (auth_request registration_form)))
      ''password'' = None
 \<and> stored_prop (getUser store_with_user (JNum 1)) ''userType'' = JStr ''individual''
 \<and> stored_prop (getUser store_with_user (JNum 1)) ''password'' = JStr ''$2a$10$password1''
 \<and> stored_prop (Map_get (creatorProfiles store_with_user) (JNum 1)) ''userId'' = JNum 1
 \<and> companyProfiles store_with_user = []"
  using register_creates_user_and_profile[where L = sample_lib and now = 0
      and st = MemStorage and req = "auth_request registration_form"]
  by (simp add: auth_eval_defs split: prod.splits)

section \<open>Video upload and the processing timer\<close>

lemma upload_video_handler_created:
  assumes "upload_video_handler L now st req = (r, st', t)" and "status r = 201"
  shows "\<exists>s f video. session req = Some s \<and> req_file req = Some f
           \<and> createVideo now st video = (json r, st')
           \<and> prop_of video ''status'' = JStr ''processing''
           \<and> t = Some \<lparr> delay_ms = 10000, timer_video_id = prop_of (json r) ''id'',
                          timer_file_path = path f \<rparr>"
proof (cases "session req")
  case None
  with assms show ?thesis by (auto simp: upload_video_handler_def respond_def)
next
  case (Some s)
  show ?thesis
  proof (cases "req_file req")
    case None
    with Some assms show ?thesis
      by (auto simp: upload_video_handler_def respond_def split: if_splits)
  next
    case (Some f)
    with \<open>session req = Some s\<close> assms show ?thesis
      by (auto simp: upload_video_handler_def respond_def Let_def prop_of_upd
            split: if_splits prod.splits sum.splits)
  qed
qed

lemma createVideo_result:
  assumes "createVideo now st video = (v, st')"
  shows "getVideo st' (JNum (videoId st)) = Some v"
    and "prop_of v ''id'' = JNum (videoId st)"
    and "prop_of v ''status'' = prop_of video ''status''"
  using assms
  by (auto simp: createVideo_def getVideo_def Map_get_set Let_def prop_of_spread_upd
        prop_of_spread_empty)

lemma processing_callback_ready:
  assumes "getVideo st2 (timer_video_id tm) = Some v"
  shows "\<exists>v'. getVideo (processing_callback rnd tm st2) (timer_video_id tm) = Some v'
           \<and> prop_of v' ''status'' = JStr ''ready''
           \<and> prop_of v' ''processedFilePath'' = JStr (timer_file_path tm @ ''-processed'')
           \<and> prop_of v' ''thumbnailPath'' = JStr (timer_file_path tm @ ''-thumbnail'')
           \<and> prop_of v' ''duration'' = JNum (rnd + 60)"
  using assms
  by (simp add: processing_callback_def updateVideo_def getVideo_def Map_get_set Let_def
        prop_of_spread_upd)

text \<open>When the video is gone by the time the timer fires, the callback changes nothing.\<close>

lemma processing_callback_deleted:
  "getVideo st2 (timer_video_id tm) = None \<Longrightarrow> processing_callback rnd tm st2 = st2"
  by (simp add: processing_callback_def updateVideo_def)

text \<open>
  Claim C6: a successful video upload (201) returns the Video record with status
  \<open>processing\<close>, stores it, and schedules the processing callback after 10000 ms for
  the new video's id. When the callback runs on any later storage that still has a video
  under that id (the video was not deleted meanwhile), the video's status becomes
  \<open>ready\<close> and its \<^verbatim>\<open>processedFilePath\<close>, \<^verbatim>\<open>thumbnailPath\<close> and \<^verbatim>\<open>duration\<close> are
  set, none of them null or undefined.
\<close>

theorem upload_video_then_ready:
  assumes "post_videos_upload L now st req = (out, st', t)"
    and "outcome_status out = Some 201"
  shows "prop_of (outcome_json out) ''status'' = JStr ''processing''
       \<and> getVideo st' (prop_of (outcome_json out) ''id'') = Some (outcome_json out)
       \<and> (\<exists>tm. t = Some tm \<and> delay_ms tm = 10000
               \<and> timer_video_id tm = prop_of (outcome_json out) ''id''
               \<and> (\<forall>st2 v. getVideo st2 (timer_video_id tm) = Some v \<longrightarrow>
                     (\<exists>v'. getVideo (processing_callback rnd tm st2) (timer_video_id tm)
                             = Some v'
                         \<and> prop_of v' ''status'' = JStr ''ready''
                         \<and> non_null (prop_of v' ''processedFilePath'')
                         \<and> non_null (prop_of v' ''thumbnailPath'')
                         \<and> non_null (prop_of v' ''duration''))))"
proof -
  from assms obtain r f where out: "out = Responded r" and s: "status r = 201"
    and h: "upload_video_handler L now st (req\<lparr> req_file := f \<rparr>) = (r, st', t)"
    by (auto simp: post_videos_upload_def split: sum.splits prod.splits)
  from upload_video_handler_created[OF h s] obtain g :: multer_file and video where
    c: "createVideo now st video = (json r, st')"
    and p: "prop_of video ''status'' = JStr ''processing''"
    and t: "t = Some \<lparr> delay_ms = 10000, timer_video_id = prop_of (json r) ''id'',
                        timer_file_path = path g \<rparr>"
    by auto
  have 1: "prop_of (json r) ''status'' = JStr ''processing''"
    using createVideo_result(3)[OF c] p by simp
  have 2: "getVideo st' (prop_of (json r) ''id'') = Some (json r)"
    using createVideo_result(1,2)[OF c] by simp
  have 3: "\<exists>v'. getVideo (processing_callback rnd tm st2) (timer_video_id tm) = Some v'
             \<and> prop_of v' ''status'' = JStr ''ready''
             \<and> non_null (prop_of v' ''processedFilePath'')
             \<and> non_null (prop_of v' ''thumbnailPath'')
             \<and> non_null (prop_of v' ''duration'')"
    if "getVideo st2 (timer_video_id tm) = Some v" for tm st2 v
    using processing_callback_ready[OF that, of rnd] by (auto simp: non_null_def)
  from 1 2 3 t out show ?thesis by simp
qed

theorem upload_video_then_ready_witness:
  "outcome_status (fst (post_videos_upload sample_lib 0 MemStorage
                          (upload_request (logged_in 1 ''individual'') video_form 1048576)))
     = Some 201
 \<and> prop_of (outcome_json (fst (post_videos_upload sample_lib 0 MemStorage
                          (upload_request (logged_in 1 ''individual'') video_form 1048576))))
      ''status'' = JStr ''processing''
 \<and> snd (snd (post_videos_upload sample_lib 0 MemStorage
                (upload_request (logged_in 1 ''individual'') video_form 1048576)))
     = Some sample_timer
 \<and> stored_prop (getVideo store_ready (JNum 1)) ''status'' = JStr ''ready''
 \<and> stored_prop (getVideo store_ready (JNum 1)) ''processedFilePath''
     = JStr ''uploads/videos/file-1-1.mp4-processed''
 \<and> stored_prop (getVideo store_ready (JNum 1)) ''thumbnailPath''
     = JStr ''uploads/videos/file-1-1.mp4-thumbnail''
 \<and> stored_prop (getVideo store_ready (JNum 1)) ''duration'' = JNum 102"
  using upload_video_then_ready[where L = sample_lib and now = 0 and st = MemStorage
      and req = "upload_request (logged_in 1 ''individual'') video_form 1048576"
      and out = "fst (post_videos_upload sample_lib 0 MemStorage
                   (upload_request (logged_in 1 ''individual'') video_form 1048576))"
      and st' = store_with_video
      and t = "Some sample_timer" and rnd = 42]
  by (simp add: eval_defs)

section \<open>Deleting ads and videos\<close>

text \<open>
  Claim C7: when the owner deletes an existing Ad or Video, the answer is 200, the record
  is gone from the storage, and \<^verbatim>\<open>fs.unlink\<close> has been called, in order, on each of the
  entity's file properties that is set; afterwards none of these paths is on the disk.
  This holds for every disk, so also when a file is missing and the unlink fails.
\<close>

theorem delete_removes_record_and_files:
  assumes "authenticated req"
    and "e = Ad \<or> e = Video"
    and "load_entity e L st req = Some x"
    and "strict_eq (prop_of x ''userId'') (session_userId req)"
  shows "case by_id_route e DELETE L st d req of (r, st', d') \<Rightarrow>
           status r = 200 \<and> load_entity e L st' req = None
         \<and> unlink_calls d' =
             unlink_calls d @ filter truthy (map (prop_of x) (file_fields e))
         \<and> files d' =
             files d - {p. JStr p \<in> set (filter truthy (map (prop_of x) (file_fields e)))}"
  using assms
  by (cases e)
     (auto simp: handler_defs storage_defs authenticated_def session_userId_def respond_def
        Map_get_delete file_fields_def unlink_catch_calls unlink_catch_files Let_def
        split: option.splits)

theorem delete_removes_record_and_files_witness:
  "status (fst (by_id_route Video DELETE sample_lib store_with_video empty_disk
                  (owner_request ''1'' Map.empty))) = 200
 \<and> getVideo store_with_video (JNum 1) \<noteq> None
 \<and> getVideo (fst (snd (by_id_route Video DELETE sample_lib store_with_video empty_disk
                         (owner_request ''1'' Map.empty)))) (JNum 1) = None
 \<and> unlink_calls (snd (snd (by_id_route Video DELETE sample_lib store_with_video empty_disk
                         (owner_request ''1'' Map.empty))))
      = [JStr ''uploads/videos/file-1-1.mp4'']
 \<and> files (snd (snd (by_id_route Video DELETE sample_lib store_with_video empty_disk
                         (owner_request ''1'' Map.empty)))) = {}"
  using delete_removes_record_and_files[where e = Video and L = sample_lib
      and st = store_with_video and d = empty_disk and req = "owner_request ''1'' Map.empty"
      and x = "the (getVideo store_with_video (JNum 1))"]
  by (simp add: eval_defs split: prod.splits)

section \<open>Ad upload\<close>

lemma upload_ad_handler_created:
  assumes "upload_ad_handler L now st req = (r, st')" and "status r = 201"
  shows "\<exists>s f ad. session req = Some s \<and> req_file req = Some f
           \<and> createAd now st ad = (json r, st')
           \<and> prop_of ad ''duration'' = JNum 30
           \<and> prop_of ad ''status'' = JStr ''pending''
           \<and> prop_of ad ''userId'' = sess_userId s"
proof (cases "session req")
  case None
  with assms show ?thesis by (auto simp: upload_ad_handler_def respond_def)
next
  case (Some s)
  show ?thesis
  proof (cases "req_file req")
    case None
    with Some assms show ?thesis
      by (auto simp: upload_ad_handler_def respond_def split: if_splits)
  next
    case (Some f)
    with \<open>session req = Some s\<close> assms show ?thesis
      by (auto simp: upload_ad_handler_def respond_def Let_def prop_of_upd
            split: if_splits prod.splits)
  qed
qed

lemma createAd_result:
  assumes "createAd now st ad = (a, st')"
  shows "getAd st' (JNum (adId st)) = Some a"
    and "k \<noteq> ''id'' \<Longrightarrow> k \<noteq> ''createdAt'' \<Longrightarrow> prop_of a k = prop_of ad k"
  using assms
  by (auto simp: createAd_def getAd_def Map_get_set Let_def prop_of_spread_upd
        prop_of_spread_empty)

text \<open>
  Claim C8: the Ad record created by a successful \<^verbatim>\<open>POST /api/ads/upload\<close> (201), which
  is the record in the answer and the one stored under the new id, has \<^verbatim>\<open>duration\<close> 30
  and \<^verbatim>\<open>status\<close> \<open>pending\<close> whatever the body says, and its \<^verbatim>\<open>userId\<close> is the
  session's.
\<close>

theorem upload_ad_fixed_fields:
  assumes "post_ads_upload L now st req = (out, st')"
    and "outcome_status out = Some 201"
  shows "prop_of (outcome_json out) ''duration'' = JNum 30
       \<and> prop_of (outcome_json out) ''status'' = JStr ''pending''
       \<and> prop_of (outcome_json out) ''userId'' = session_userId req
       \<and> getAd st' (JNum (adId st)) = Some (outcome_json out)"
proof -
  from assms obtain r f where out: "out = Responded r" and s201: "status r = 201"
    and h: "upload_ad_handler L now st (req\<lparr> req_file := f \<rparr>) = (r, st')"
    by (auto simp: post_ads_upload_def split: sum.splits prod.splits)
  from upload_ad_handler_created[OF h s201] obtain s ad where
    s: "session req = Some s" and c: "createAd now st ad = (json r, st')"
    and ad: "prop_of ad ''duration'' = JNum 30" "prop_of ad ''status'' = JStr ''pending''"
      "prop_of ad ''userId'' = sess_userId s"
    by auto
  from s have "session_userId req = sess_userId s" by (simp add: session_userId_def)
  with createAd_result[OF c] ad out show ?thesis by simp
qed

theorem upload_ad_fixed_fields_witness:
  "outcome_status (fst (post_ads_upload sample_lib 0 MemStorage
                          (upload_request (logged_in 1 ''company'') ad_form 1048576)))
     = Some 201
 \<and> prop_of ad_form ''duration'' = JStr ''999''
 \<and> prop_of ad_form ''status'' = JStr ''approved''
 \<and> prop_of ad_form ''userId'' = JStr ''42''
 \<and> stored_prop (getAd (snd (post_ads_upload sample_lib 0 MemStorage
                     (upload_request (logged_in 1 ''company'') ad_form 1048576))) (JNum 1))
      ''duration'' = JNum 30
 \<and> stored_prop (getAd (snd (post_ads_upload sample_lib 0 MemStorage
                     (upload_request (logged_in 1 ''company'') ad_form 1048576))) (JNum 1))
      ''status'' = JStr ''pending''
 \<and> stored_prop (getAd (snd (post_ads_upload sample_lib 0 MemStorage
                     (upload_request (logged_in 1 ''company'') ad_form 1048576))) (JNum 1))
      ''userId'' = JNum 1"
  using upload_ad_fixed_fields[where L = sample_lib and now = 0 and st = MemStorage
      and req = "upload_request (logged_in 1 ''company'') ad_form 1048576"
      and out = "fst (post_ads_upload sample_lib 0 MemStorage
                   (upload_request (logged_in 1 ''company'') ad_form 1048576))"
      and st' = "snd (post_ads_upload sample_lib 0 MemStorage
                     (upload_request (logged_in 1 ''company'') ad_form 1048576))"]
  by (simp add: eval_defs)

section \<open>Patching\<close>

text \<open>
  Claim C9: a \<^verbatim>\<open>PATCH\<close> of a campaign, an ad or a video by its owner is answered 200
  with the stored record overlaid by the raw request body, and that overlay is what the
  storage then holds: every property the body has, \<^verbatim>\<open>userId\<close>, \<^verbatim>\<open>id\<close> and
  \<^verbatim>\<open>createdAt\<close> included, has the body's value, and every other property is as before.
\<close>

theorem patch_merges_raw_body:
  assumes "authenticated req"
    and "load_entity e L st req = Some x"
    and "strict_eq (prop_of x ''userId'') (session_userId req)"
  shows "case by_id_route e PATCH L st d req of (r, st', d') \<Rightarrow>
           status r = 200 \<and> json r = spread x (body req)
         \<and> load_entity e L st' req = Some (spread x (body req))
         \<and> (\<forall>k v. body req k = Some v \<longrightarrow> prop_of (spread x (body req)) k = v)
         \<and> (\<forall>k. body req k = None \<longrightarrow> spread x (body req) k = x k)"
  using assms
  by (cases e)
     (auto simp: handler_defs storage_defs authenticated_def session_userId_def respond_def
        Map_get_set spread_def prop_of_def map_add_def Let_def split: option.splits)

theorem patch_merges_raw_body_witness:
  "status (fst (by_id_route Video PATCH sample_lib store_with_video empty_disk
                  (owner_request ''1'' takeover_patch))) = 200
 \<and> stored_prop (getVideo (fst (snd (by_id_route Video PATCH sample_lib store_with_video
                     empty_disk (owner_request ''1'' takeover_patch)))) (JNum 1)) ''userId''
     = JNum 7
 \<and> stored_prop (getVideo (fst (snd (by_id_route Video PATCH sample_lib store_with_video
                     empty_disk (owner_request ''1'' takeover_patch)))) (JNum 1)) ''id''
     = JNum 99
 \<and> stored_prop (getVideo (fst (snd (by_id_route Video PATCH sample_lib store_with_video
                     empty_disk (owner_request ''1'' takeover_patch)))) (JNum 1)) ''createdAt''
     = JStr ''never''
 \<and> stored_prop (getVideo (fst (snd (by_id_route Video PATCH sample_lib store_with_video
                     empty_disk (owner_request ''1'' takeover_patch)))) (JNum 1)) ''status''
     = JStr ''processing''"
  using patch_merges_raw_body[where e = Video and L = sample_lib and st = store_with_video
      and d = empty_disk and req = "owner_request ''1'' takeover_patch"
      and x = "the (getVideo store_with_video (JNum 1))"]
  by (simp add: eval_defs split: prod.splits)

section \<open>Download\<close>

text \<open>
  Claim C10, as amended: for a download request by the owner of an existing video, the
  answer is 400 with the message \<open>Video is not ready for download\<close> exactly when the
  video's status is neither \<open>ready\<close> nor \<open>published\<close>; otherwise it is 200 with
  \<^verbatim>\<open>url\<close> equal to \<^verbatim>\<open>processedFilePath\<close> when that is truthy (not undefined, null,
  false, 0, NaN or the empty string) and to \<^verbatim>\<open>rawFilePath\<close> otherwise; the storage is
  unchanged.
\<close>

theorem download_ready_or_not:
  assumes "authenticated req"
    and "getVideo st (parseInt L (JStr (params_id req))) = Some v"
    and "strict_eq (prop_of v ''userId'') (session_userId req)"
  shows "case get_video_download L st req of (r, st') \<Rightarrow>
           st' = st
         \<and> (status r = 400 \<longleftrightarrow>
               prop_of v ''status'' \<noteq> JStr ''ready'' \<and> prop_of v ''status'' \<noteq> JStr ''published'')
         \<and> (status r = 400 \<longrightarrow> json r = message ''Video is not ready for download'')
         \<and> (status r \<noteq> 400 \<longrightarrow>
               status r = 200
             \<and> prop_of (json r) ''url'' =
                 (if truthy (prop_of v ''processedFilePath'')
                  then prop_of v ''processedFilePath'' else prop_of v ''rawFilePath''))"
  using assms
  by (auto simp: get_video_download_def authenticated_def session_userId_def respond_def
        strict_eq_JStr js_or_def prop_of_def Let_def split: option.splits)

theorem download_ready_or_not_witness:
  "status (fst (get_video_download sample_lib store_with_video (owner_request ''1'' Map.empty)))
     = 400
 \<and> status (fst (get_video_download sample_lib store_ready (owner_request ''1'' Map.empty)))
     = 200
 \<and> prop_of (json (fst (get_video_download sample_lib store_ready
                          (owner_request ''1'' Map.empty)))) ''url''
     = JStr ''uploads/videos/file-1-1.mp4-processed''"
  using
    download_ready_or_not[where L = sample_lib and st = store_with_video
      and req = "owner_request ''1'' Map.empty"
      and v = "the (getVideo store_with_video (JNum 1))"]
    download_ready_or_not[where L = sample_lib and st = store_ready
      and req = "owner_request ''1'' Map.empty"
      and v = "the (getVideo store_ready (JNum 1))"]
  by (simp add: eval_defs split: prod.splits)

text \<open>
  The claim as first stated takes \<^verbatim>\<open>url\<close> to be \<^verbatim>\<open>processedFilePath\<close> whenever that
  is non-null. After the owner has patched the video to status \<open>ready\<close> with the empty
  string as \<^verbatim>\<open>processedFilePath\<close>, that property is neither null nor undefined, yet the
  download answers 200 with the raw file's path as \<^verbatim>\<open>url\<close>.
\<close>

theorem download_url_counterexample:
  "stored_prop (getVideo store_blank (JNum 1)) ''processedFilePath'' = JStr []
 \<and> non_null (JStr [])
 \<and> stored_prop (getVideo store_blank (JNum 1)) ''status'' = JStr ''ready''
 \<and> stored_prop (getVideo store_blank (JNum 1)) ''userId'' = JNum 1
 \<and> status (fst (get_video_download sample_lib store_blank (owner_request ''1'' Map.empty)))
     = 200
 \<and> prop_of (json (fst (get_video_download sample_lib store_blank
                          (owner_request ''1'' Map.empty)))) ''url''
     = JStr ''uploads/videos/file-1-1.mp4''
 \<and> prop_of (json (fst (get_video_download sample_lib store_blank
                          (owner_request ''1'' Map.empty)))) ''url''
     \<noteq> stored_prop (getVideo store_blank (JNum 1)) ''processedFilePath''"
  by (simp add: eval_defs)

end
